theory Spec2Isabelle
  imports Main "HOL-Library.Word"
begin

unbundle bit_operations_syntax

section \<open>Machine types of \<^verbatim>\<open>nx/source/services/bsd.c\<close>\<close>

text \<open>
  The client runs on a 64-bit little-endian target: \<^verbatim>\<open>int\<close> and \<^verbatim>\<open>u32\<close> are 32-bit,
  \<^verbatim>\<open>size_t\<close>, \<^verbatim>\<open>ssize_t\<close>, \<^verbatim>\<open>u64\<close> and pointers are 64-bit. A signed value is kept as
  the word holding its two's complement pattern and read with \<open>sint\<close>; \<open>-1\<close> is the
  all-ones word.
\<close>

type_synonym u8 = "8 word"
type_synonym u32 = "32 word"
type_synonym u64 = "64 word"
type_synonym s32 = "32 word"
type_synonym size_t = "64 word"
type_synonym ssize_t = "64 word"
type_synonym ptr = "64 word"
type_synonym socklen_t = "32 word"
type_synonym Result = "32 word"

section \<open>Buffer-size configuration and the transfer-memory size\<close>

text \<open>
  \<^verbatim>\<open>BsdBufferConfig\<close> is declared in \<^verbatim>\<open>services/bsd.h\<close>; the function below copies its
  fields into \<^verbatim>\<open>u32\<close> locals and the initialiser of the default instance names all
  eight of them, so every field is a \<^verbatim>\<open>u32\<close>.
\<close>

record BsdBufferConfig =
  version :: u32
  tcp_tx_buf_size :: u32
  tcp_rx_buf_size :: u32
  tcp_tx_buf_max_size :: u32
  tcp_rx_buf_max_size :: u32
  udp_tx_buf_size :: u32
  udp_rx_buf_size :: u32
  sb_efficiency :: u32

definition g_defaultBsdBufferConfig :: BsdBufferConfig where
  "g_defaultBsdBufferConfig =
     \<lparr> version = 1,
       tcp_tx_buf_size = 0x8000,
       tcp_rx_buf_size = 0x10000,
       tcp_tx_buf_max_size = 0x40000,
       tcp_rx_buf_max_size = 0x40000,
       udp_tx_buf_size = 0x2400,
       udp_rx_buf_size = 0xA500,
       sb_efficiency = 4 \<rparr>"

text \<open>
  \<^verbatim>\<open>_bsdGetTransferMemSizeForConfig\<close>: the sum, the page round-up and the product are all
  computed in \<^verbatim>\<open>u32\<close> (they wrap modulo \<open>2 ^ 32\<close>); only the finished product is
  widened to \<^verbatim>\<open>size_t\<close>.
\<close>

definition bsdGetTransferMemSizeForConfig :: "BsdBufferConfig \<Rightarrow> size_t" where
  "bsdGetTransferMemSizeForConfig config =
     (let tcp_tx_buf_max_size =
            (if tcp_tx_buf_max_size config \<noteq> 0 then tcp_tx_buf_max_size config
             else tcp_tx_buf_size config);
          tcp_rx_buf_max_size =
            (if tcp_rx_buf_max_size config \<noteq> 0 then tcp_rx_buf_max_size config
             else tcp_rx_buf_size config);
          sum = tcp_tx_buf_max_size + tcp_rx_buf_max_size
                + udp_tx_buf_size config + udp_rx_buf_size config;
          sum = push_bit 12 (drop_bit 12 (sum + 0xFFF))
      in ucast (sb_efficiency config * sum))"

subsection \<open>The reference formula of the specification, on unbounded naturals\<close>

definition roundUpToPage :: "nat \<Rightarrow> nat" where
  "roundUpToPage n = ((n + 4095) div 4096) * 4096"

definition maxTcpTx :: "BsdBufferConfig \<Rightarrow> nat" where
  "maxTcpTx config =
     (if unat (tcp_tx_buf_max_size config) = 0 then unat (tcp_tx_buf_size config)
      else unat (tcp_tx_buf_max_size config))"

definition maxTcpRx :: "BsdBufferConfig \<Rightarrow> nat" where
  "maxTcpRx config =
     (if unat (tcp_rx_buf_max_size config) = 0 then unat (tcp_rx_buf_size config)
      else unat (tcp_rx_buf_max_size config))"

definition computeTransferMemorySize_spec :: "BsdBufferConfig \<Rightarrow> nat" where
  "computeTransferMemorySize_spec config =
     unat (sb_efficiency config)
       * roundUpToPage (maxTcpTx config + maxTcpRx config
                        + unat (udp_tx_buf_size config) + unat (udp_rx_buf_size config))"

section \<open>Constants and sizes taken from the platform headers\<close>

text \<open>
  \<^verbatim>\<open>bsd.c\<close> uses these names from \<^verbatim>\<open><errno.h>\<close>, \<^verbatim>\<open><fcntl.h>\<close>, \<^verbatim>\<open><sys/ioctl.h>\<close>,
  \<^verbatim>\<open><net/if.h>\<close>, \<^verbatim>\<open><net/if_media.h>\<close>, \<^verbatim>\<open><sys/select.h>\<close>, \<^verbatim>\<open><poll.h>\<close> and \<^verbatim>\<open>ipc.h\<close>
  without defining them. The model takes them as a parameter \<open>h\<close>, so that every result
  below holds for whatever values the headers give. The request codes are compared
  with an \<^verbatim>\<open>int\<close>, so they are kept as 32-bit patterns.
\<close>

record headers =
  SFCI_MAGIC :: u64
  EPIPE :: s32
  F_GETFL :: s32
  F_SETFL :: s32
  SIOCGIFCONF :: s32
  SIOCGIFMEDIA :: s32
  SIOCGIFXMEDIA :: s32
  IOC_IN :: s32
  IOC_OUT :: s32
  IOC_INOUT :: s32
  IOCPARM_LEN :: "s32 \<Rightarrow> size_t"
  sizeof_fd_set :: size_t
  sizeof_pollfd :: size_t
  sizeof_ifconf :: size_t
  sizeof_ifmediareq :: size_t

definition NULL :: ptr where
  "NULL = 0"

text \<open>\<^verbatim>\<open>R_SUCCEEDED\<close> and \<^verbatim>\<open>R_FAILED\<close> of \<^verbatim>\<open>result.h\<close>: a \<^verbatim>\<open>Result\<close> is a \<^verbatim>\<open>u32\<close>, 0 is success.\<close>

definition R_SUCCEEDED :: "Result \<Rightarrow> bool" where
  "R_SUCCEEDED rc = (rc = 0)"

definition R_FAILED :: "Result \<Rightarrow> bool" where
  "R_FAILED rc = (rc \<noteq> 0)"

section \<open>Commands, replies and the transport\<close>

text \<open>
  Modelled from the spec: \<^verbatim>\<open>ipc.h\<close> (\<^verbatim>\<open>IpcCommand\<close>, \<^verbatim>\<open>ipcInitialize\<close>, the four
  \<^verbatim>\<open>ipcAdd...\<close> functions and \<^verbatim>\<open>ipcPrepareHeader\<close>) is not part of the source file. The
  spec describes a command as a fixed header (protocol magic, operation code, scalar
  arguments) plus an ordered list of directional buffer descriptors, each a pointer, a
  byte length and a flag. A descriptor records which of the four \<^verbatim>\<open>ipcAdd...\<close> functions
  attached it; the list keeps the order of the calls.
\<close>

datatype IpcBufferKind = SendBuffer | SendStatic | RecvBuffer | RecvStatic

record IpcBuffer =
  d_kind :: IpcBufferKind
  d_ptr :: ptr
  d_size :: size_t
  d_flags :: u8

record timeval =
  tv_sec :: u64
  tv_usec :: u64

text \<open>
  A scalar of the raw request struct. A \<^verbatim>\<open>struct timeval\<close> field that the code leaves
  unwritten is \<open>STimeval None\<close>.
\<close>

datatype scalar =
    SInt s32
  | SU32 u32
  | SU64 u64
  | SBool bool
  | STimeval "timeval option"

record IpcCommand =
  Buffers :: "IpcBuffer list"
  raw_magic :: u64
  raw_cmd_id :: u64
  raw_args :: "(string \<times> scalar) list"

definition ipcInitialize :: IpcCommand where
  "ipcInitialize = \<lparr> Buffers = [], raw_magic = 0, raw_cmd_id = 0, raw_args = [] \<rparr>"

definition ipcAdd :: "IpcBufferKind \<Rightarrow> IpcCommand \<Rightarrow> ptr \<Rightarrow> size_t \<Rightarrow> u8 \<Rightarrow> IpcCommand" where
  "ipcAdd k c buffer sz fl =
     c\<lparr> Buffers := Buffers c @ [\<lparr> d_kind = k, d_ptr = buffer, d_size = sz, d_flags = fl \<rparr>] \<rparr>"

definition ipcAddSendBuffer :: "IpcCommand \<Rightarrow> ptr \<Rightarrow> size_t \<Rightarrow> u8 \<Rightarrow> IpcCommand" where
  "ipcAddSendBuffer = ipcAdd SendBuffer"

definition ipcAddSendStatic :: "IpcCommand \<Rightarrow> ptr \<Rightarrow> size_t \<Rightarrow> u8 \<Rightarrow> IpcCommand" where
  "ipcAddSendStatic = ipcAdd SendStatic"

definition ipcAddRecvBuffer :: "IpcCommand \<Rightarrow> ptr \<Rightarrow> size_t \<Rightarrow> u8 \<Rightarrow> IpcCommand" where
  "ipcAddRecvBuffer = ipcAdd RecvBuffer"

definition ipcAddRecvStatic :: "IpcCommand \<Rightarrow> ptr \<Rightarrow> size_t \<Rightarrow> u8 \<Rightarrow> IpcCommand" where
  "ipcAddRecvStatic = ipcAdd RecvStatic"

text \<open>
  \<^verbatim>\<open>raw = ipcPrepareHeader(&c, sizeof(*raw))\<close> followed by the assignments to
  \<^verbatim>\<open>raw->magic\<close>, \<^verbatim>\<open>raw->cmd_id\<close> and the remaining fields, in declaration order.
\<close>

definition ipcPrepareHeader ::
    "IpcCommand \<Rightarrow> u64 \<Rightarrow> u64 \<Rightarrow> (string \<times> scalar) list \<Rightarrow> IpcCommand" where
  "ipcPrepareHeader c magic cmd_id args =
     c\<lparr> raw_magic := magic, raw_cmd_id := cmd_id, raw_args := args \<rparr>"

text \<open>
  The reply as \<^verbatim>\<open>ipcParse\<close> exposes it through \<^verbatim>\<open>r.Raw\<close>: \<^verbatim>\<open>BsdIpcResponseBase\<close>
  (\<^verbatim>\<open>magic\<close>, \<^verbatim>\<open>result\<close>, \<^verbatim>\<open>ret\<close>, \<^verbatim>\<open>errno_\<close>) and the eight bytes that follow it at
  offset 24. A trailing \<^verbatim>\<open>socklen_t addrlen\<close> is the low half of those bytes
  (little-endian), a trailing \<^verbatim>\<open>size_t oldlenp\<close> is all of them.
\<close>

record IpcParsedCommand =
  resp_magic :: u64
  resp_result :: u64
  resp_ret :: s32
  resp_errno :: s32
  resp_tail :: u64

definition resp_addrlen :: "IpcParsedCommand \<Rightarrow> socklen_t" where
  "resp_addrlen r = ucast (resp_tail r)"

definition resp_oldlenp :: "IpcParsedCommand \<Rightarrow> size_t" where
  "resp_oldlenp r = resp_tail r"

text \<open>
  \<^verbatim>\<open>serviceIpcDispatch(&g_bsdSrv)\<close> is external. It is a parameter \<open>t\<close>: given the
  command that was prepared, it yields the transport's \<^verbatim>\<open>Result\<close> and whatever the
  reply buffer holds afterwards (there is a buffer content also when the call failed).
\<close>

type_synonym transport = "IpcCommand \<Rightarrow> Result \<times> IpcParsedCommand"

section \<open>Caller memory and the state an operation works on\<close>

text \<open>Of \<^verbatim>\<open>struct ifconf\<close> and \<^verbatim>\<open>struct ifmediareq\<close>, the fields that the code reads.\<close>

record ifconf =
  ifc_len :: s32
  ifc_req :: ptr

record ifmediareq =
  ifm_count :: s32
  ifm_ulist :: ptr

text \<open>
  \<open>errno\<close> is the thread's \<^verbatim>\<open>errno\<close>. \<open>sent\<close> logs every command handed to
  \<^verbatim>\<open>serviceIpcDispatch\<close>, oldest first, and \<open>parses\<close> counts the calls of \<^verbatim>\<open>ipcParse\<close>.
  The caller's memory is one map per type of object that the code reads or writes
  through a pointer; \<open>mem_cstr p\<close> is the bytes of the C string at \<open>p\<close> before its NUL.
\<close>

record bsd_state =
  errno :: s32
  sent :: "IpcCommand list"
  parses :: nat
  mem_socklen :: "ptr \<Rightarrow> socklen_t"
  mem_size :: "ptr \<Rightarrow> size_t"
  mem_timeval :: "ptr \<Rightarrow> timeval"
  mem_cstr :: "ptr \<Rightarrow> string"
  mem_ifconf :: "ptr \<Rightarrow> ifconf"
  mem_ifmediareq :: "ptr \<Rightarrow> ifmediareq"

text \<open>
  A \<^verbatim>\<open>va_list\<close> is the list of the variadic arguments. \<^verbatim>\<open>va_arg\<close> with no argument left,
  or with one of another type, is undefined behaviour: \<open>None\<close>.
\<close>

datatype vararg = VaInt s32 | VaPtr ptr

type_synonym va_list = "vararg list"

fun va_arg_int :: "va_list \<Rightarrow> s32 option" where
  "va_arg_int (VaInt i # _) = Some i"
| "va_arg_int _ = None"

fun va_arg_ptr :: "va_list \<Rightarrow> ptr option" where
  "va_arg_ptr (VaPtr p # _) = Some p"
| "va_arg_ptr _ = None"

definition strnlen :: "string \<Rightarrow> nat \<Rightarrow> size_t" where
  "strnlen str maxlen = of_nat (min (length str) maxlen)"

section \<open>Dispatch and reply decoding\<close>

text \<open>
  \<^verbatim>\<open>_bsdDispatchBasicCommand\<close>. The second component of the result is the local \<^verbatim>\<open>r\<close>
  that the function copies to \<^verbatim>\<open>*rOut\<close>: \<open>None\<close> while \<^verbatim>\<open>ipcParse\<close> has not filled it.
\<close>

definition bsdDispatchBasicCommand ::
    "headers \<Rightarrow> transport \<Rightarrow> IpcCommand \<Rightarrow> bsd_state
       \<Rightarrow> s32 \<times> IpcParsedCommand option \<times> bsd_state" where
  "bsdDispatchBasicCommand h t c s =
     (let (rc, reply) = t c;
          s = s\<lparr> sent := sent s @ [c] \<rparr>;
          (rc, ret, r, s) =
            (if R_SUCCEEDED rc then
               (let s = s\<lparr> parses := Suc (parses s) \<rparr>;
                    resp = reply;
                    rc = ucast (resp_result resp)
                in if R_SUCCEEDED rc
                   then (rc, resp_ret resp, Some resp, s\<lparr> errno := resp_errno resp \<rparr>)
                   else (rc, - 1, Some resp, s))
             else (rc, - 1, None, s));
          s = (if R_FAILED rc then s\<lparr> errno := EPIPE h \<rparr> else s)
      in (ret, r, s))"

text \<open>
  \<^verbatim>\<open>_bsdDispatchCommandWithOutAddrlen\<close>. The branch that reads \<^verbatim>\<open>r.Raw\<close> is entered only
  with \<open>ret \<noteq> -1\<close>, which happens only after \<^verbatim>\<open>ipcParse\<close>; the case \<open>None\<close> is there to
  make the function total and is never taken (lemma \<open>bsdDispatchBasicCommand_parsed\<close>).
\<close>

definition bsdDispatchCommandWithOutAddrlen ::
    "headers \<Rightarrow> transport \<Rightarrow> IpcCommand \<Rightarrow> ptr \<Rightarrow> bsd_state \<Rightarrow> s32 \<times> bsd_state" where
  "bsdDispatchCommandWithOutAddrlen h t c addrlen s =
     (let (ret, r, s) = bsdDispatchBasicCommand h t c s
      in if ret \<noteq> - 1 \<and> addrlen \<noteq> NULL
         then (case r of
                 Some resp \<Rightarrow>
                   (ret, s\<lparr> mem_socklen := (mem_socklen s)(addrlen := resp_addrlen resp) \<rparr>)
               | None \<Rightarrow> (ret, s))
         else (ret, s))"

definition bsdNameGetterCommand ::
    "headers \<Rightarrow> transport \<Rightarrow> u32 \<Rightarrow> s32 \<Rightarrow> ptr \<Rightarrow> ptr \<Rightarrow> bsd_state \<Rightarrow> s32 \<times> bsd_state" where
  "bsdNameGetterCommand h t cmd_id sockfd addr addrlen s =
     (let c = ipcInitialize;
          maxaddrlen = (if addrlen = NULL then 0 else mem_socklen s addrlen);
          c = ipcAddRecvBuffer c addr (ucast maxaddrlen) 0;
          c = ipcAddRecvStatic c addr (ucast maxaddrlen) 0;
          c = ipcPrepareHeader c (SFCI_MAGIC h) (ucast cmd_id) [(''sockfd'', SInt sockfd)]
      in bsdDispatchCommandWithOutAddrlen h t c addrlen s)"

definition bsdSocketCreationCommand ::
    "headers \<Rightarrow> transport \<Rightarrow> u32 \<Rightarrow> s32 \<Rightarrow> s32 \<Rightarrow> s32 \<Rightarrow> bsd_state \<Rightarrow> s32 \<times> bsd_state" where
  "bsdSocketCreationCommand h t cmd_id domain type protocol s =
     (let c = ipcInitialize;
          c = ipcPrepareHeader c (SFCI_MAGIC h) (ucast cmd_id)
                [(''domain'', SInt domain), (''type'', SInt type), (''protocol'', SInt protocol)];
          (ret, r, s) = bsdDispatchBasicCommand h t c s
      in (ret, s))"

section \<open>The public socket operations\<close>

text \<open>
  Each operation takes the header constants \<open>h\<close>, the transport \<open>t\<close>, its C arguments and
  the state, and returns its C return value with the state afterwards. An operation
  that can run into undefined behaviour (a null pointer read without a check, \<^verbatim>\<open>va_arg\<close>
  without an argument, signed overflow) returns an \<open>option\<close>, \<open>None\<close> in that case.
\<close>

definition bsdSocket :: "headers \<Rightarrow> transport \<Rightarrow> s32 \<Rightarrow> s32 \<Rightarrow> s32 \<Rightarrow> bsd_state \<Rightarrow> s32 \<times> bsd_state" where
  "bsdSocket h t domain type protocol s = bsdSocketCreationCommand h t 2 domain type protocol s"

definition bsdSocketExempt :: "headers \<Rightarrow> transport \<Rightarrow> s32 \<Rightarrow> s32 \<Rightarrow> s32 \<Rightarrow> bsd_state \<Rightarrow> s32 \<times> bsd_state" where
  "bsdSocketExempt h t domain type protocol s = bsdSocketCreationCommand h t 3 domain type protocol s"

definition bsdOpen :: "headers \<Rightarrow> transport \<Rightarrow> ptr \<Rightarrow> s32 \<Rightarrow> bsd_state \<Rightarrow> (s32 \<times> bsd_state) option" where
  "bsdOpen h t pathname flags s =
     (if pathname = NULL then None
      else
        (let c = ipcInitialize;
             pathlen = strnlen (mem_cstr s pathname) 256;
             c = ipcAddSendBuffer c pathname pathlen 0;
             c = ipcAddSendStatic c pathname pathlen 0;
             c = ipcPrepareHeader c (SFCI_MAGIC h) 4 [(''flags'', SInt flags)];
             (ret, r, s) = bsdDispatchBasicCommand h t c s
         in Some (ret, s)))"

definition bsdSelect ::
    "headers \<Rightarrow> transport \<Rightarrow> s32 \<Rightarrow> ptr \<Rightarrow> ptr \<Rightarrow> ptr \<Rightarrow> ptr \<Rightarrow> bsd_state \<Rightarrow> s32 \<times> bsd_state" where
  "bsdSelect h t nfds readfds writefds exceptfds timeout s =
     (let c = ipcInitialize;
          c = ipcAddSendBuffer c readfds (sizeof_fd_set h) 0;
          c = ipcAddSendStatic c readfds (sizeof_fd_set h) 0;
          c = ipcAddSendBuffer c writefds (sizeof_fd_set h) 0;
          c = ipcAddSendStatic c writefds (sizeof_fd_set h) 0;
          c = ipcAddSendBuffer c exceptfds (sizeof_fd_set h) 0;
          c = ipcAddSendStatic c exceptfds (sizeof_fd_set h) 0;
          c = ipcAddRecvBuffer c readfds (sizeof_fd_set h) 0;
          c = ipcAddRecvStatic c readfds (sizeof_fd_set h) 0;
          c = ipcAddRecvBuffer c writefds (sizeof_fd_set h) 0;
          c = ipcAddRecvStatic c writefds (sizeof_fd_set h) 0;
          c = ipcAddRecvBuffer c exceptfds (sizeof_fd_set h) 0;
          c = ipcAddRecvStatic c exceptfds (sizeof_fd_set h) 0;
          nullTimeout = (timeout = NULL);
          c = ipcPrepareHeader c (SFCI_MAGIC h) 5
                [(''nfds'', SInt nfds),
                 (''timeout'', STimeval (if \<not> nullTimeout then Some (mem_timeval s timeout) else None)),
                 (''nullTimeout'', SBool nullTimeout)];
          (ret, r, s) = bsdDispatchBasicCommand h t c s
      in (ret, s))"

text \<open>\<^verbatim>\<open>nfds_t\<close> comes from \<^verbatim>\<open><poll.h>\<close>; it is taken as a 32-bit unsigned integer.\<close>

definition bsdPoll :: "headers \<Rightarrow> transport \<Rightarrow> ptr \<Rightarrow> u32 \<Rightarrow> s32 \<Rightarrow> bsd_state \<Rightarrow> s32 \<times> bsd_state" where
  "bsdPoll h t fds nfds timeout s =
     (let c = ipcInitialize;
          c = ipcAddSendBuffer c fds (sizeof_pollfd h) 0;
          c = ipcAddSendStatic c fds (sizeof_pollfd h) 0;
          c = ipcAddRecvBuffer c fds (sizeof_pollfd h) 0;
          c = ipcAddRecvStatic c fds (sizeof_pollfd h) 0;
          c = ipcPrepareHeader c (SFCI_MAGIC h) 6 [(''nfds'', SU32 nfds), (''timeout'', SInt timeout)];
          (ret, r, s) = bsdDispatchBasicCommand h t c s
      in (ret, s))"

text \<open>
  \<^verbatim>\<open>bsdSysctl\<close>: \<^verbatim>\<open>4 * namelen\<close> is an \<^verbatim>\<open>unsigned int\<close> product, widened afterwards. As in
  \<^verbatim>\<open>_bsdDispatchCommandWithOutAddrlen\<close>, the case \<open>None\<close> of \<open>r\<close> is never taken.
\<close>

definition bsdSysctl ::
    "headers \<Rightarrow> transport \<Rightarrow> ptr \<Rightarrow> u32 \<Rightarrow> ptr \<Rightarrow> ptr \<Rightarrow> ptr \<Rightarrow> size_t \<Rightarrow> bsd_state \<Rightarrow> s32 \<times> bsd_state" where
  "bsdSysctl h t name namelen oldp oldlenp newp newlen s =
     (let inlen = (if oldlenp = NULL then 0 else mem_size s oldlenp);
          c = ipcInitialize;
          c = ipcAddSendBuffer c name (ucast (4 * namelen)) 0;
          c = ipcAddSendStatic c name (ucast (4 * namelen)) 0;
          c = ipcAddSendBuffer c newp newlen 0;
          c = ipcAddSendStatic c newp newlen 0;
          c = ipcAddRecvBuffer c oldp inlen 0;
          c = ipcAddRecvStatic c oldp inlen 0;
          c = ipcPrepareHeader c (SFCI_MAGIC h) 7 [];
          (ret, r, s) = bsdDispatchBasicCommand h t c s
      in if ret \<noteq> - 1 \<and> oldlenp \<noteq> NULL
         then (case r of
                 Some resp \<Rightarrow> (ret, s\<lparr> mem_size := (mem_size s)(oldlenp := resp_oldlenp resp) \<rparr>)
               | None \<Rightarrow> (ret, s))
         else (ret, s))"

definition bsdRecv ::
    "headers \<Rightarrow> transport \<Rightarrow> s32 \<Rightarrow> ptr \<Rightarrow> size_t \<Rightarrow> s32 \<Rightarrow> bsd_state \<Rightarrow> ssize_t \<times> bsd_state" where
  "bsdRecv h t sockfd buf len flags s =
     (let c = ipcInitialize;
          c = ipcAddRecvBuffer c buf len 0;
          c = ipcAddRecvStatic c buf len 0;
          c = ipcPrepareHeader c (SFCI_MAGIC h) 8 [(''sockfd'', SInt sockfd), (''flags'', SInt flags)];
          (ret, r, s) = bsdDispatchBasicCommand h t c s
      in (scast ret, s))"

definition bsdRecvFrom ::
    "headers \<Rightarrow> transport \<Rightarrow> s32 \<Rightarrow> ptr \<Rightarrow> size_t \<Rightarrow> s32 \<Rightarrow> ptr \<Rightarrow> ptr \<Rightarrow> bsd_state
       \<Rightarrow> ssize_t \<times> bsd_state" where
  "bsdRecvFrom h t sockfd buf len flags src_addr addrlen s =
     (let inaddrlen = (if addrlen = NULL then 0 else mem_socklen s addrlen);
          c = ipcInitialize;
          c = ipcAddRecvBuffer c buf len 0;
          c = ipcAddRecvStatic c buf len 0;
          c = ipcAddRecvBuffer c src_addr (ucast inaddrlen) 0;
          c = ipcAddRecvBuffer c src_addr (ucast inaddrlen) 0;
          c = ipcPrepareHeader c (SFCI_MAGIC h) 9 [(''sockfd'', SInt sockfd), (''flags'', SInt flags)];
          (ret, s) = bsdDispatchCommandWithOutAddrlen h t c addrlen s
      in (scast ret, s))"

definition bsdSend ::
    "headers \<Rightarrow> transport \<Rightarrow> s32 \<Rightarrow> ptr \<Rightarrow> size_t \<Rightarrow> s32 \<Rightarrow> bsd_state \<Rightarrow> ssize_t \<times> bsd_state" where
  "bsdSend h t sockfd buf len flags s =
     (let c = ipcInitialize;
          c = ipcAddSendBuffer c buf len 0;
          c = ipcAddSendStatic c buf len 0;
          c = ipcPrepareHeader c (SFCI_MAGIC h) 10 [(''sockfd'', SInt sockfd), (''flags'', SInt flags)];
          (ret, r, s) = bsdDispatchBasicCommand h t c s
      in (scast ret, s))"

definition bsdSendTo ::
    "headers \<Rightarrow> transport \<Rightarrow> s32 \<Rightarrow> ptr \<Rightarrow> size_t \<Rightarrow> s32 \<Rightarrow> ptr \<Rightarrow> socklen_t \<Rightarrow> bsd_state
       \<Rightarrow> ssize_t \<times> bsd_state" where
  "bsdSendTo h t sockfd buf len flags dest_addr addrlen s =
     (let c = ipcInitialize;
          c = ipcAddSendBuffer c buf len 0;
          c = ipcAddSendStatic c buf len 0;
          c = ipcAddSendBuffer c dest_addr (ucast addrlen) 1;
          c = ipcAddSendStatic c dest_addr (ucast addrlen) 1;
          c = ipcPrepareHeader c (SFCI_MAGIC h) 11 [(''sockfd'', SInt sockfd), (''flags'', SInt flags)];
          (ret, r, s) = bsdDispatchBasicCommand h t c s
      in (scast ret, s))"

definition bsdAccept :: "headers \<Rightarrow> transport \<Rightarrow> s32 \<Rightarrow> ptr \<Rightarrow> ptr \<Rightarrow> bsd_state \<Rightarrow> s32 \<times> bsd_state" where
  "bsdAccept h t sockfd addr addrlen s = bsdNameGetterCommand h t 12 sockfd addr addrlen s"

text \<open>The raw struct of \<^verbatim>\<open>bsdBind\<close> has no field besides \<^verbatim>\<open>magic\<close> and \<^verbatim>\<open>cmd_id\<close>.\<close>

definition bsdBind :: "headers \<Rightarrow> transport \<Rightarrow> s32 \<Rightarrow> ptr \<Rightarrow> socklen_t \<Rightarrow> bsd_state \<Rightarrow> s32 \<times> bsd_state" where
  "bsdBind h t sockfd addr addrlen s =
     (let c = ipcInitialize;
          c = ipcAddSendBuffer c addr (ucast addrlen) 0;
          c = ipcAddSendStatic c addr (ucast addrlen) 0;
          c = ipcPrepareHeader c (SFCI_MAGIC h) 13 [];
          (ret, r, s) = bsdDispatchBasicCommand h t c s
      in (ret, s))"

definition bsdConnect :: "headers \<Rightarrow> transport \<Rightarrow> s32 \<Rightarrow> ptr \<Rightarrow> socklen_t \<Rightarrow> bsd_state \<Rightarrow> s32 \<times> bsd_state" where
  "bsdConnect h t sockfd addr addrlen s =
     (let c = ipcInitialize;
          c = ipcAddSendBuffer c addr (ucast addrlen) 0;
          c = ipcAddSendStatic c addr (ucast addrlen) 0;
          c = ipcPrepareHeader c (SFCI_MAGIC h) 14 [(''sockfd'', SInt sockfd)];
          (ret, r, s) = bsdDispatchBasicCommand h t c s
      in (ret, s))"

definition bsdGetPeerName :: "headers \<Rightarrow> transport \<Rightarrow> s32 \<Rightarrow> ptr \<Rightarrow> ptr \<Rightarrow> bsd_state \<Rightarrow> s32 \<times> bsd_state" where
  "bsdGetPeerName h t sockfd addr addrlen s = bsdNameGetterCommand h t 15 sockfd addr addrlen s"

definition bsdGetSockName :: "headers \<Rightarrow> transport \<Rightarrow> s32 \<Rightarrow> ptr \<Rightarrow> ptr \<Rightarrow> bsd_state \<Rightarrow> s32 \<times> bsd_state" where
  "bsdGetSockName h t sockfd addr addrlen s = bsdNameGetterCommand h t 16 sockfd addr addrlen s"

definition bsdGetSockOpt ::
    "headers \<Rightarrow> transport \<Rightarrow> s32 \<Rightarrow> s32 \<Rightarrow> s32 \<Rightarrow> ptr \<Rightarrow> ptr \<Rightarrow> bsd_state \<Rightarrow> s32 \<times> bsd_state" where
  "bsdGetSockOpt h t sockfd level optname optval optlen s =
     (let c = ipcInitialize;
          inoptlen = (if optlen = NULL then 0 else mem_socklen s optlen);
          c = ipcAddRecvBuffer c optval (ucast inoptlen) 0;
          c = ipcAddRecvStatic c optval (ucast inoptlen) 0;
          c = ipcPrepareHeader c (SFCI_MAGIC h) 17
                [(''sockfd'', SInt sockfd), (''level'', SInt level), (''optname'', SInt optname)];
          (ret, r, s) = bsdDispatchBasicCommand h t c s
      in (ret, s))"

definition bsdListen :: "headers \<Rightarrow> transport \<Rightarrow> s32 \<Rightarrow> s32 \<Rightarrow> bsd_state \<Rightarrow> s32 \<times> bsd_state" where
  "bsdListen h t sockfd backlog s =
     (let c = ipcInitialize;
          c = ipcPrepareHeader c (SFCI_MAGIC h) 18 [(''sockfd'', SInt sockfd), (''backlog'', SInt backlog)];
          (ret, r, s) = bsdDispatchBasicCommand h t c s
      in (ret, s))"

subsection \<open>ioctl and fcntl\<close>

text \<open>
  The buffers that the \<^verbatim>\<open>switch\<close> of \<^verbatim>\<open>bsdIoctl_v\<close> chooses. The locals \<^verbatim>\<open>in3\<close>, \<^verbatim>\<open>in4\<close>,
  \<^verbatim>\<open>out3\<close>, \<^verbatim>\<open>out4\<close> and their sizes are never assigned and stay \<^verbatim>\<open>NULL\<close> and 0.
\<close>

record ioctl_bufs =
  in1 :: ptr
  in1sz :: size_t
  in2 :: ptr
  in2sz :: size_t
  out1 :: ptr
  out1sz :: size_t
  out2 :: ptr
  out2sz :: size_t
  bufcount :: s32

text \<open>
  The \<^verbatim>\<open>switch (request)\<close>: the case labels are tried in the order of the source.
  \<^verbatim>\<open>data->ifc_len\<close> is an \<^verbatim>\<open>int\<close> converted to \<^verbatim>\<open>size_t\<close> (sign extension);
  \<^verbatim>\<open>8 * data->ifm_count\<close> is an \<^verbatim>\<open>int\<close> product, undefined when it overflows, converted
  in the same way. Reading a field through a null \<^verbatim>\<open>data\<close> is undefined.
\<close>

definition bsdIoctl_v_switch :: "headers \<Rightarrow> s32 \<Rightarrow> va_list \<Rightarrow> bsd_state \<Rightarrow> ioctl_bufs option" where
  "bsdIoctl_v_switch h request args s =
     (if request = SIOCGIFCONF h then
        (case va_arg_ptr args of
           None \<Rightarrow> None
         | Some data \<Rightarrow>
             if data = NULL then None
             else Some \<lparr> in1 = data, in1sz = sizeof_ifconf h,
                         in2 = ifc_req (mem_ifconf s data),
                         in2sz = scast (ifc_len (mem_ifconf s data)),
                         out1 = data, out1sz = sizeof_ifconf h,
                         out2 = ifc_req (mem_ifconf s data),
                         out2sz = scast (ifc_len (mem_ifconf s data)),
                         bufcount = 2 \<rparr>)
      else if request = SIOCGIFMEDIA h \<or> request = SIOCGIFXMEDIA h then
        (case va_arg_ptr args of
           None \<Rightarrow> None
         | Some data \<Rightarrow>
             if data = NULL then None
             else if 8 * sint (ifm_count (mem_ifmediareq s data)) < - (2 ^ 31)
                     \<or> 2 ^ 31 \<le> 8 * sint (ifm_count (mem_ifmediareq s data)) then None
             else Some \<lparr> in1 = data, in1sz = sizeof_ifmediareq h,
                         in2 = ifm_ulist (mem_ifmediareq s data),
                         in2sz = scast (8 * ifm_count (mem_ifmediareq s data)),
                         out1 = data, out1sz = sizeof_ifmediareq h,
                         out2 = ifm_ulist (mem_ifmediareq s data),
                         out2sz = scast (8 * ifm_count (mem_ifmediareq s data)),
                         bufcount = 2 \<rparr>)
      else
        (case (if request AND IOC_INOUT h \<noteq> 0 then va_arg_ptr args else Some NULL) of
           None \<Rightarrow> None
         | Some data \<Rightarrow>
             Some \<lparr> in1 = (if request AND IOC_IN h \<noteq> 0 then data else NULL),
                    in1sz = (if request AND IOC_IN h \<noteq> 0 then IOCPARM_LEN h request else 0),
                    in2 = NULL, in2sz = 0,
                    out1 = (if request AND IOC_OUT h \<noteq> 0 then data else NULL),
                    out1sz = (if request AND IOC_OUT h \<noteq> 0 then IOCPARM_LEN h request else 0),
                    out2 = NULL, out2sz = 0,
                    bufcount = 1 \<rparr>))"

definition bsdIoctl_v ::
    "headers \<Rightarrow> transport \<Rightarrow> s32 \<Rightarrow> s32 \<Rightarrow> va_list \<Rightarrow> bsd_state \<Rightarrow> (s32 \<times> bsd_state) option" where
  "bsdIoctl_v h t fd request args s =
     (case bsdIoctl_v_switch h request args s of
        None \<Rightarrow> None
      | Some b \<Rightarrow>
          (let c = ipcInitialize;
               c = ipcAddSendBuffer c (in1 b) (in1sz b) 0;
               c = ipcAddSendStatic c (in1 b) (in1sz b) 0;
               c = ipcAddSendBuffer c (in2 b) (in2sz b) 0;
               c = ipcAddSendStatic c (in2 b) (in2sz b) 0;
               c = ipcAddSendBuffer c NULL 0 0;
               c = ipcAddSendStatic c NULL 0 0;
               c = ipcAddSendBuffer c NULL 0 0;
               c = ipcAddSendStatic c NULL 0 0;
               c = ipcAddRecvBuffer c (out1 b) (out1sz b) 0;
               c = ipcAddRecvStatic c (out1 b) (out1sz b) 0;
               c = ipcAddRecvBuffer c (out2 b) (out2sz b) 0;
               c = ipcAddRecvStatic c (out2 b) (out2sz b) 0;
               c = ipcAddRecvBuffer c NULL 0 0;
               c = ipcAddRecvStatic c NULL 0 0;
               c = ipcAddRecvBuffer c NULL 0 0;
               c = ipcAddRecvStatic c NULL 0 0;
               c = ipcPrepareHeader c (SFCI_MAGIC h) 19
                     [(''fd'', SInt fd), (''request'', SInt request), (''bufcount'', SInt (bufcount b))];
               (ret, r, s) = bsdDispatchBasicCommand h t c s
           in Some (ret, s)))"

definition bsdIoctl ::
    "headers \<Rightarrow> transport \<Rightarrow> s32 \<Rightarrow> s32 \<Rightarrow> va_list \<Rightarrow> bsd_state \<Rightarrow> (s32 \<times> bsd_state) option" where
  "bsdIoctl h t fd request args s = bsdIoctl_v h t fd request args s"

text \<open>
  \<^verbatim>\<open>bsdFnctl_v\<close>: the early return for \<^verbatim>\<open>F_GETFL\<close> and \<^verbatim>\<open>F_SETFL\<close>, then the
  \<^verbatim>\<open>if (cmd == F_SETFL) arg = va_arg(args, int)\<close> of the source, then the dispatch.
\<close>

definition bsdFnctl_v ::
    "headers \<Rightarrow> transport \<Rightarrow> s32 \<Rightarrow> s32 \<Rightarrow> va_list \<Rightarrow> bsd_state \<Rightarrow> (s32 \<times> bsd_state) option" where
  "bsdFnctl_v h t fd cmd args s =
     (if cmd = F_GETFL h \<or> cmd = F_SETFL h then Some (- 1, s\<lparr> errno := 0 \<rparr>)
      else
        (case (if cmd = F_SETFL h then va_arg_int args else Some 0) of
           None \<Rightarrow> None
         | Some arg \<Rightarrow>
             (let c = ipcInitialize;
                  c = ipcPrepareHeader c (SFCI_MAGIC h) 20
                        [(''fd'', SInt fd), (''cmd'', SInt cmd), (''arg'', SInt arg)];
                  (ret, r, s) = bsdDispatchBasicCommand h t c s
              in Some (ret, s))))"

definition bsdFnctl ::
    "headers \<Rightarrow> transport \<Rightarrow> s32 \<Rightarrow> s32 \<Rightarrow> va_list \<Rightarrow> bsd_state \<Rightarrow> (s32 \<times> bsd_state) option" where
  "bsdFnctl h t fd cmd args s = bsdFnctl_v h t fd cmd args s"

subsection \<open>The remaining operations\<close>

definition bsdSetSockOpt ::
    "headers \<Rightarrow> transport \<Rightarrow> s32 \<Rightarrow> s32 \<Rightarrow> s32 \<Rightarrow> ptr \<Rightarrow> socklen_t \<Rightarrow> bsd_state \<Rightarrow> s32 \<times> bsd_state" where
  "bsdSetSockOpt h t sockfd level optname optval optlen s =
     (let c = ipcInitialize;
          c = ipcAddSendBuffer c optval (ucast optlen) 0;
          c = ipcAddSendStatic c optval (ucast optlen) 0;
          c = ipcPrepareHeader c (SFCI_MAGIC h) 21
                [(''sockfd'', SInt sockfd), (''level'', SInt level), (''optname'', SInt optname)];
          (ret, r, s) = bsdDispatchBasicCommand h t c s
      in (ret, s))"

definition bsdShutdown :: "headers \<Rightarrow> transport \<Rightarrow> s32 \<Rightarrow> s32 \<Rightarrow> bsd_state \<Rightarrow> s32 \<times> bsd_state" where
  "bsdShutdown h t sockfd how s =
     (let c = ipcInitialize;
          c = ipcPrepareHeader c (SFCI_MAGIC h) 22 [(''sockfd'', SInt sockfd), (''how'', SInt how)];
          (ret, r, s) = bsdDispatchBasicCommand h t c s
      in (ret, s))"

definition bsdShutdownAllSockets :: "headers \<Rightarrow> transport \<Rightarrow> s32 \<Rightarrow> bsd_state \<Rightarrow> s32 \<times> bsd_state" where
  "bsdShutdownAllSockets h t how s =
     (let c = ipcInitialize;
          c = ipcPrepareHeader c (SFCI_MAGIC h) 23 [(''how'', SInt how)];
          (ret, r, s) = bsdDispatchBasicCommand h t c s
      in (ret, s))"

definition bsdWrite :: "headers \<Rightarrow> transport \<Rightarrow> s32 \<Rightarrow> ptr \<Rightarrow> size_t \<Rightarrow> bsd_state \<Rightarrow> ssize_t \<times> bsd_state" where
  "bsdWrite h t fd buf count s =
     (let c = ipcInitialize;
          c = ipcAddSendBuffer c buf count 0;
          c = ipcAddSendStatic c buf count 0;
          c = ipcPrepareHeader c (SFCI_MAGIC h) 24 [(''fd'', SInt fd)];
          (ret, r, s) = bsdDispatchBasicCommand h t c s
      in (scast ret, s))"

definition bsdRead :: "headers \<Rightarrow> transport \<Rightarrow> s32 \<Rightarrow> ptr \<Rightarrow> size_t \<Rightarrow> bsd_state \<Rightarrow> ssize_t \<times> bsd_state" where
  "bsdRead h t fd buf count s =
     (let c = ipcInitialize;
          c = ipcAddRecvBuffer c buf count 0;
          c = ipcAddRecvStatic c buf count 0;
          c = ipcPrepareHeader c (SFCI_MAGIC h) 25 [(''fd'', SInt fd)];
          (ret, r, s) = bsdDispatchBasicCommand h t c s
      in (scast ret, s))"

definition bsdClose :: "headers \<Rightarrow> transport \<Rightarrow> s32 \<Rightarrow> bsd_state \<Rightarrow> s32 \<times> bsd_state" where
  "bsdClose h t fd s =
     (let c = ipcInitialize;
          c = ipcPrepareHeader c (SFCI_MAGIC h) 26 [(''fd'', SInt fd)];
          (ret, r, s) = bsdDispatchBasicCommand h t c s
      in (ret, s))"

definition bsdDuplicateSocket :: "headers \<Rightarrow> transport \<Rightarrow> s32 \<Rightarrow> bsd_state \<Rightarrow> s32 \<times> bsd_state" where
  "bsdDuplicateSocket h t sockfd s =
     (let c = ipcInitialize;
          c = ipcPrepareHeader c (SFCI_MAGIC h) 27 [(''sockfd'', SInt sockfd), (''reserved'', SU64 0)];
          (ret, r, s) = bsdDispatchBasicCommand h t c s
      in (ret, s))"

section \<open>A call of any public operation\<close>

text \<open>
  One constructor for each public socket operation of \<^verbatim>\<open>bsd.c\<close> with its arguments, and
  a function that runs the call. The C return value (\<^verbatim>\<open>int\<close> or \<^verbatim>\<open>ssize_t\<close>) is returned
  as the integer it denotes.
\<close>

datatype bsd_call =
    Call_bsdSocket s32 s32 s32
  | Call_bsdSocketExempt s32 s32 s32
  | Call_bsdOpen ptr s32
  | Call_bsdSelect s32 ptr ptr ptr ptr
  | Call_bsdPoll ptr u32 s32
  | Call_bsdSysctl ptr u32 ptr ptr ptr size_t
  | Call_bsdRecv s32 ptr size_t s32
  | Call_bsdRecvFrom s32 ptr size_t s32 ptr ptr
  | Call_bsdSend s32 ptr size_t s32
  | Call_bsdSendTo s32 ptr size_t s32 ptr socklen_t
  | Call_bsdAccept s32 ptr ptr
  | Call_bsdBind s32 ptr socklen_t
  | Call_bsdConnect s32 ptr socklen_t
  | Call_bsdGetPeerName s32 ptr ptr
  | Call_bsdGetSockName s32 ptr ptr
  | Call_bsdGetSockOpt s32 s32 s32 ptr ptr
  | Call_bsdListen s32 s32
  | Call_bsdIoctl s32 s32 va_list
  | Call_bsdFnctl s32 s32 va_list
  | Call_bsdSetSockOpt s32 s32 s32 ptr socklen_t
  | Call_bsdShutdown s32 s32
  | Call_bsdShutdownAllSockets s32
  | Call_bsdWrite s32 ptr size_t
  | Call_bsdRead s32 ptr size_t
  | Call_bsdClose s32
  | Call_bsdDuplicateSocket s32

definition as_int :: "'a::len word \<times> bsd_state \<Rightarrow> int \<times> bsd_state" where
  "as_int x = (sint (fst x), snd x)"

fun bsd_call_run :: "headers \<Rightarrow> transport \<Rightarrow> bsd_call \<Rightarrow> bsd_state \<Rightarrow> (int \<times> bsd_state) option" where
  "bsd_call_run h t (Call_bsdSocket a b c) s = Some (as_int (bsdSocket h t a b c s))"
| "bsd_call_run h t (Call_bsdSocketExempt a b c) s = Some (as_int (bsdSocketExempt h t a b c s))"
| "bsd_call_run h t (Call_bsdOpen a b) s = map_option as_int (bsdOpen h t a b s)"
| "bsd_call_run h t (Call_bsdSelect a b c d e) s = Some (as_int (bsdSelect h t a b c d e s))"
| "bsd_call_run h t (Call_bsdPoll a b c) s = Some (as_int (bsdPoll h t a b c s))"
| "bsd_call_run h t (Call_bsdSysctl a b c d e f) s = Some (as_int (bsdSysctl h t a b c d e f s))"
| "bsd_call_run h t (Call_bsdRecv a b c d) s = Some (as_int (bsdRecv h t a b c d s))"
| "bsd_call_run h t (Call_bsdRecvFrom a b c d e f) s = Some (as_int (bsdRecvFrom h t a b c d e f s))"
| "bsd_call_run h t (Call_bsdSend a b c d) s = Some (as_int (bsdSend h t a b c d s))"
| "bsd_call_run h t (Call_bsdSendTo a b c d e f) s = Some (as_int (bsdSendTo h t a b c d e f s))"
| "bsd_call_run h t (Call_bsdAccept a b c) s = Some (as_int (bsdAccept h t a b c s))"
| "bsd_call_run h t (Call_bsdBind a b c) s = Some (as_int (bsdBind h t a b c s))"
| "bsd_call_run h t (Call_bsdConnect a b c) s = Some (as_int (bsdConnect h t a b c s))"
| "bsd_call_run h t (Call_bsdGetPeerName a b c) s = Some (as_int (bsdGetPeerName h t a b c s))"
| "bsd_call_run h t (Call_bsdGetSockName a b c) s = Some (as_int (bsdGetSockName h t a b c s))"
| "bsd_call_run h t (Call_bsdGetSockOpt a b c d e) s = Some (as_int (bsdGetSockOpt h t a b c d e s))"
| "bsd_call_run h t (Call_bsdListen a b) s = Some (as_int (bsdListen h t a b s))"
| "bsd_call_run h t (Call_bsdIoctl a b c) s = map_option as_int (bsdIoctl h t a b c s)"
| "bsd_call_run h t (Call_bsdFnctl a b c) s = map_option as_int (bsdFnctl h t a b c s)"
| "bsd_call_run h t (Call_bsdSetSockOpt a b c d e) s = Some (as_int (bsdSetSockOpt h t a b c d e s))"
| "bsd_call_run h t (Call_bsdShutdown a b) s = Some (as_int (bsdShutdown h t a b s))"
| "bsd_call_run h t (Call_bsdShutdownAllSockets a) s = Some (as_int (bsdShutdownAllSockets h t a s))"
| "bsd_call_run h t (Call_bsdWrite a b c) s = Some (as_int (bsdWrite h t a b c s))"
| "bsd_call_run h t (Call_bsdRead a b c) s = Some (as_int (bsdRead h t a b c s))"
| "bsd_call_run h t (Call_bsdClose a) s = Some (as_int (bsdClose h t a s))"
| "bsd_call_run h t (Call_bsdDuplicateSocket a) s = Some (as_int (bsdDuplicateSocket h t a s))"

section \<open>Properties of commands that the claims speak about\<close>

text \<open>
  A descriptor list is \<open>paired\<close> when it consists of consecutive pairs, each a dynamic
  buffer descriptor followed by the static descriptor of the same direction for the same
  pointer and length.
\<close>

fun static_of :: "IpcBufferKind \<Rightarrow> IpcBufferKind option" where
  "static_of SendBuffer = Some SendStatic"
| "static_of RecvBuffer = Some RecvStatic"
| "static_of SendStatic = None"
| "static_of RecvStatic = None"

fun paired :: "IpcBuffer list \<Rightarrow> bool" where
  "paired [] = True"
| "paired [d] = False"
| "paired (d # e # ds) =
     (static_of (d_kind d) = Some (d_kind e) \<and> d_ptr e = d_ptr d \<and> d_size e = d_size d
      \<and> paired ds)"

text \<open>The dynamic and the static descriptor of one logical send or receive parameter.\<close>

definition send_pair :: "ptr \<Rightarrow> size_t \<Rightarrow> u8 \<Rightarrow> IpcBuffer list" where
  "send_pair p sz fl =
     [\<lparr> d_kind = SendBuffer, d_ptr = p, d_size = sz, d_flags = fl \<rparr>,
      \<lparr> d_kind = SendStatic, d_ptr = p, d_size = sz, d_flags = fl \<rparr>]"

definition recv_pair :: "ptr \<Rightarrow> size_t \<Rightarrow> u8 \<Rightarrow> IpcBuffer list" where
  "recv_pair p sz fl =
     [\<lparr> d_kind = RecvBuffer, d_ptr = p, d_size = sz, d_flags = fl \<rparr>,
      \<lparr> d_kind = RecvStatic, d_ptr = p, d_size = sz, d_flags = fl \<rparr>]"

text \<open>The address-length pointer of the operations that return an address length.\<close>

fun addrlen_arg :: "bsd_call \<Rightarrow> ptr option" where
  "addrlen_arg (Call_bsdAccept sockfd addr addrlen) = Some addrlen"
| "addrlen_arg (Call_bsdGetPeerName sockfd addr addrlen) = Some addrlen"
| "addrlen_arg (Call_bsdGetSockName sockfd addr addrlen) = Some addrlen"
| "addrlen_arg (Call_bsdRecvFrom sockfd buf len flags src_addr addrlen) = Some addrlen"
| "addrlen_arg _ = None"

text \<open>
  The calls that \<^verbatim>\<open>bsdFnctl_v\<close> answers by its early return, without going to the
  transport.
\<close>

fun rejected_locally :: "headers \<Rightarrow> bsd_call \<Rightarrow> bool" where
  "rejected_locally h (Call_bsdFnctl fd cmd args) = (cmd = F_GETFL h \<or> cmd = F_SETFL h)"
| "rejected_locally h _ = False"


text \<open>Two states agree on \<open>errno\<close> and on the two logs.\<close>

definition same_core :: "bsd_state \<Rightarrow> bsd_state \<Rightarrow> bool" where
  "same_core s1 s2 = (errno s1 = errno s2 \<and> sent s1 = sent s2 \<and> parses s1 = parses s2)"

text \<open>
  The outcome \<open>(r, s')\<close> of an operation started in \<open>s\<close> is that of one call of
  \<^verbatim>\<open>_bsdDispatchBasicCommand\<close> on some command, up to writes to caller memory.
\<close>

definition dispatched :: "headers \<Rightarrow> transport \<Rightarrow> bsd_state \<Rightarrow> int \<Rightarrow> bsd_state \<Rightarrow> bool" where
  "dispatched h t s r s' =
     (\<exists>c. r = sint (fst (bsdDispatchBasicCommand h t c s))
          \<and> same_core s' (snd (snd (bsdDispatchBasicCommand h t c s))))"

section \<open>Concrete inputs used below\<close>

text \<open>
  Header values as on a 64-bit BSD-derived C library, used only to evaluate the model at
  concrete inputs: \<^verbatim>\<open>EPIPE\<close> 32, \<^verbatim>\<open>F_GETFL\<close> 3, \<^verbatim>\<open>F_SETFL\<close> 4, the three \<^verbatim>\<open>_IOWR('i', n, ...)\<close>
  request codes, \<^verbatim>\<open>IOCPARM_LEN(x) = (x >> 16) & 0x1fff\<close>.
\<close>

definition example_headers :: headers where
  "example_headers =
     \<lparr> SFCI_MAGIC = 0x49434653, EPIPE = 32, F_GETFL = 3, F_SETFL = 4,
       SIOCGIFCONF = 0xC0106924, SIOCGIFMEDIA = 0xC0306938, SIOCGIFXMEDIA = 0xC030698B,
       IOC_IN = 0x80000000, IOC_OUT = 0x40000000, IOC_INOUT = 0xC0000000,
       IOCPARM_LEN = (\<lambda>x. ucast (drop_bit 16 x AND 0x1FFF)),
       sizeof_fd_set = 128, sizeof_pollfd = 8, sizeof_ifconf = 16, sizeof_ifmediareq = 48 \<rparr>"

definition example_state :: bsd_state where
  "example_state =
     \<lparr> errno = 0, sent = [], parses = 0,
       mem_socklen = (\<lambda>p. 16),
       mem_size = (\<lambda>p. 0),
       mem_timeval = (\<lambda>p. \<lparr> tv_sec = 0, tv_usec = 0 \<rparr>),
       mem_cstr = (\<lambda>p. []),
       mem_ifconf = (\<lambda>p. \<lparr> ifc_len = 64, ifc_req = 0x2000 \<rparr>),
       mem_ifmediareq = (\<lambda>p. \<lparr> ifm_count = 3, ifm_ulist = 0x3000 \<rparr>) \<rparr>"

text \<open>A transport whose call fails, although the reply buffer holds a well-formed reply.\<close>

definition transport_down :: transport where
  "transport_down c =
     (0xE401, \<lparr> resp_magic = 0x4F434653, resp_result = 0, resp_ret = 7, resp_errno = 0,
                resp_tail = 28 \<rparr>)"

text \<open>A transport whose reply reports a failure of the remote socket call (errno 111).\<close>

definition transport_posix_error :: transport where
  "transport_posix_error c =
     (0, \<lparr> resp_magic = 0x4F434653, resp_result = 0, resp_ret = - 1, resp_errno = 111,
           resp_tail = 0 \<rparr>)"

text \<open>A transport whose reply reports success, return value 7 and a trailing field 28.\<close>

definition transport_ok :: transport where
  "transport_ok c =
     (0, \<lparr> resp_magic = 0x4F434653, resp_result = 0, resp_ret = 7, resp_errno = 0,
           resp_tail = 28 \<rparr>)"

subsection \<open>Buffer-size configurations\<close>

definition overflow_config :: BsdBufferConfig where
  "overflow_config =
     \<lparr> version = 1, tcp_tx_buf_size = 0, tcp_rx_buf_size = 0,
       tcp_tx_buf_max_size = 0x80000000, tcp_rx_buf_max_size = 0x80000000,
       udp_tx_buf_size = 0, udp_rx_buf_size = 0, sb_efficiency = 1 \<rparr>"



section \<open>Transfer-memory size: arithmetic\<close>

lemma round_down_mod:
  fixes a p q :: nat
  assumes "0 < p"
  shows "(a mod (p * q)) div p * p = (a div p * p) mod (p * q)"
proof -
  have "a mod (p * q) = p * (a div p mod q) + a mod p"
    by (rule mod_mult2_eq)
  then have "(a mod (p * q)) div p = a div p mod q"
    using assms by simp
  then have "(a mod (p * q)) div p * p = p * (a div p mod q)"
    by (simp add: mult.commute)
  also have "\<dots> = (p * (a div p)) mod (p * q)"
    by (rule mult_mod_right)
  finally show ?thesis by (simp add: mult.commute)
qed

lemma nat_page: "((a::nat) mod 2 ^ 32) div 4096 * 4096 = (a div 4096 * 4096) mod 2 ^ 32"
  using round_down_mod [of 4096 a "2 ^ 20"] by simp

lemma page_word: "unat (push_bit 12 (drop_bit 12 (w + 0xFFF)) :: u32) = roundUpToPage (unat w) mod 2 ^ 32"
proof -
  have a: "unat (w + 0xFFF) = (unat w + 4095) mod 2 ^ 32"
    by (simp add: unat_word_ariths)
  have b: "unat (drop_bit 12 (w + 0xFFF)) = (unat w + 4095) mod 2 ^ 32 div 4096"
    unfolding unat_drop_bit_eq a by (simp add: drop_bit_eq_div)
  have c: "unat (push_bit 12 (drop_bit 12 (w + 0xFFF)) :: u32) = (unat (drop_bit 12 (w + 0xFFF)) * 4096) mod 2 ^ 32"
    by (simp add: push_bit_eq_mult unat_word_ariths)
  show ?thesis unfolding c b roundUpToPage_def
    by (simp only: nat_page mod_mod_trivial)
qed

lemma unat_ucast_32_64: "unat (ucast (w :: u32) :: u64) = unat w"
proof -
  have "unat w < 2 ^ 32"
    using unsigned_less [of w] by simp
  then have "unat w < 2 ^ 64"
    by simp
  then show ?thesis
    by (simp add: unsigned_ucast_eq take_bit_nat_eq_self)
qed

lemma maxTcpTx_word:
  "unat (if tcp_tx_buf_max_size c \<noteq> 0 then tcp_tx_buf_max_size c else tcp_tx_buf_size c) = maxTcpTx c"
  by (simp add: maxTcpTx_def unat_eq_0)

lemma maxTcpRx_word:
  "unat (if tcp_rx_buf_max_size c \<noteq> 0 then tcp_rx_buf_max_size c else tcp_rx_buf_size c) = maxTcpRx c"
  by (simp add: maxTcpRx_def unat_eq_0)

lemma unat_sum4: "unat (a + b + c + d :: u32) = (unat a + unat b + unat c + unat d) mod 2 ^ 32"
  by (simp add: unat_word_ariths mod_simps)

lemma roundUpToPage_mod: "roundUpToPage (n mod 2 ^ 32) mod 2 ^ 32 = roundUpToPage n mod 2 ^ 32"
proof -
  have "(n mod 2 ^ 32 + 4095) div 4096 * 4096 mod 2 ^ 32 = ((n mod 2 ^ 32 + 4095) mod 2 ^ 32) div 4096 * 4096"
    by (simp only: nat_page)
  also have "\<dots> = ((n + 4095) mod 2 ^ 32) div 4096 * 4096"
    by (simp only: mod_add_left_eq)
  also have "\<dots> = (n + 4095) div 4096 * 4096 mod 2 ^ 32"
    by (simp only: nat_page)
  finally show ?thesis by (simp only: roundUpToPage_def)
qed

lemma size_mod: "unat (bsdGetTransferMemSizeForConfig c) = computeTransferMemorySize_spec c mod 2 ^ 32"
proof -
  let ?S = "maxTcpTx c + maxTcpRx c + unat (udp_tx_buf_size c) + unat (udp_rx_buf_size c)"
  let ?w = "(if tcp_tx_buf_max_size c \<noteq> 0 then tcp_tx_buf_max_size c else tcp_tx_buf_size c)
     + (if tcp_rx_buf_max_size c \<noteq> 0 then tcp_rx_buf_max_size c else tcp_rx_buf_size c)
     + udp_tx_buf_size c + udp_rx_buf_size c"
  have w: "unat ?w = ?S mod 2 ^ 32"
    by (simp only: unat_sum4 maxTcpTx_word maxTcpRx_word)
  have r: "unat (push_bit 12 (drop_bit 12 (?w + 0xFFF))) = roundUpToPage ?S mod 2 ^ 32"
    by (simp only: page_word w roundUpToPage_mod)
  have "unat (bsdGetTransferMemSizeForConfig c) = unat (sb_efficiency c * push_bit 12 (drop_bit 12 (?w + 0xFFF)))"
    by (simp only: bsdGetTransferMemSizeForConfig_def Let_def unat_ucast_32_64)
  also have "\<dots> = (unat (sb_efficiency c) * (roundUpToPage ?S mod 2 ^ 32)) mod 2 ^ 32"
    by (simp add: unat_word_ariths r) 
  also have "\<dots> = (unat (sb_efficiency c) * roundUpToPage ?S) mod 2 ^ 32"
    by (simp only: mod_mult_right_eq)
  finally show ?thesis by (simp only: computeTransferMemorySize_spec_def)
qed

lemma roundUpToPage_mono: "m \<le> n \<Longrightarrow> roundUpToPage m \<le> roundUpToPage n"
  unfolding roundUpToPage_def by (intro mult_le_mono1 div_le_mono) simp

lemma maxTcpTx_mono:
  assumes "tcp_tx_buf_size c1 \<le> tcp_tx_buf_size c2"
    and "tcp_tx_buf_max_size c1 \<le> tcp_tx_buf_max_size c2"
    and "tcp_tx_buf_max_size c1 = 0 \<and> tcp_tx_buf_max_size c2 \<noteq> 0
           \<longrightarrow> tcp_tx_buf_size c1 \<le> tcp_tx_buf_max_size c2"
  shows "maxTcpTx c1 \<le> maxTcpTx c2"
  using assms by (auto simp: maxTcpTx_def word_le_nat_alt unat_eq_0)

lemma maxTcpRx_mono:
  assumes "tcp_rx_buf_size c1 \<le> tcp_rx_buf_size c2"
    and "tcp_rx_buf_max_size c1 \<le> tcp_rx_buf_max_size c2"
    and "tcp_rx_buf_max_size c1 = 0 \<and> tcp_rx_buf_max_size c2 \<noteq> 0
           \<longrightarrow> tcp_rx_buf_size c1 \<le> tcp_rx_buf_max_size c2"
  shows "maxTcpRx c1 \<le> maxTcpRx c2"
  using assms by (auto simp: maxTcpRx_def word_le_nat_alt unat_eq_0)

section \<open>Transfer-memory size: the claims\<close>

text \<open>
  C4, as stated, at a concrete input: with both TCP maxima at \<open>0x80000000\<close> and
  efficiency 1 the 32-bit sum wraps to 0 and the function returns 0, whereas the
  reference formula on unbounded integers gives \<open>2 ^ 32\<close>, a value that a 64-bit
  \<^verbatim>\<open>size_t\<close> holds. So the computed size is not the reference formula for every
  configuration.
\<close>

theorem transfer_mem_size_overflow:
  "bsdGetTransferMemSizeForConfig overflow_config = 0
   \<and> computeTransferMemorySize_spec overflow_config = 4294967296
   \<and> unat (bsdGetTransferMemSizeForConfig overflow_config)
       \<noteq> computeTransferMemorySize_spec overflow_config"
  by (simp add: overflow_config_def bsdGetTransferMemSizeForConfig_def
      computeTransferMemorySize_spec_def roundUpToPage_def maxTcpTx_def maxTcpRx_def)

text \<open>
  C4 (amended): for every configuration the computed transfer-memory size is the
  reference formula (effective TCP maxima, plus the UDP sizes, rounded up to a multiple
  of 4096, times the efficiency factor) reduced modulo \<open>2 ^ 32\<close>; it is the
  reference formula itself whenever that value is below \<open>2 ^ 32\<close>; and for the default
  configuration it equals \<open>4 * roundUpToPage (0x40000 + 0x40000 + 0x2400 + 0xA500)\<close>.
\<close>

theorem transfer_mem_size_formula:
  "unat (bsdGetTransferMemSizeForConfig config) = computeTransferMemorySize_spec config mod 2 ^ 32
   \<and> (computeTransferMemorySize_spec config < 2 ^ 32
        \<longrightarrow> unat (bsdGetTransferMemSizeForConfig config) = computeTransferMemorySize_spec config)
   \<and> unat (bsdGetTransferMemSizeForConfig g_defaultBsdBufferConfig)
        = 4 * roundUpToPage (0x40000 + 0x40000 + 0x2400 + 0xA500)"
proof (intro conjI impI)
  show "unat (bsdGetTransferMemSizeForConfig config) = computeTransferMemorySize_spec config mod 2 ^ 32"
    by (rule size_mod)
next
  assume "computeTransferMemorySize_spec config < 2 ^ 32"
  then show "unat (bsdGetTransferMemSizeForConfig config) = computeTransferMemorySize_spec config"
    by (simp only: size_mod mod_less)
next
  show "unat (bsdGetTransferMemSizeForConfig g_defaultBsdBufferConfig)
        = 4 * roundUpToPage (0x40000 + 0x40000 + 0x2400 + 0xA500)"
    by (simp add: g_defaultBsdBufferConfig_def bsdGetTransferMemSizeForConfig_def roundUpToPage_def)
qed

text \<open>The default configuration satisfies the bound, and its size is \<open>0x234000\<close>.\<close>

theorem transfer_mem_size_formula_witness:
  "computeTransferMemorySize_spec g_defaultBsdBufferConfig < 2 ^ 32
   \<and> unat (bsdGetTransferMemSizeForConfig g_defaultBsdBufferConfig)
       = computeTransferMemorySize_spec g_defaultBsdBufferConfig
   \<and> computeTransferMemorySize_spec g_defaultBsdBufferConfig = 0x234000"
proof -
  have v: "computeTransferMemorySize_spec g_defaultBsdBufferConfig = 0x234000"
    by (simp add: g_defaultBsdBufferConfig_def computeTransferMemorySize_spec_def
        roundUpToPage_def maxTcpTx_def maxTcpRx_def)
  then have h: "computeTransferMemorySize_spec g_defaultBsdBufferConfig < 2 ^ 32"
    by simp
  from transfer_mem_size_formula [of g_defaultBsdBufferConfig] h v show ?thesis
    by blast
qed

text \<open>
  C5, as stated, at concrete inputs. Raising only \<^verbatim>\<open>tcp_tx_buf_max_size\<close> of the default
  configuration from 0 to 1 lowers the computed size from \<open>0x154000\<close> to \<open>0x134000\<close>:
  the value 0 means "use \<^verbatim>\<open>tcp_tx_buf_size\<close>" (here \<open>0x8000\<close>), and 1 replaces it.
  Raising only \<^verbatim>\<open>sb_efficiency\<close> from \<open>0x1000\<close> to \<open>0x2000\<close> lowers it as well,
  because the 32-bit product wraps.
\<close>

theorem transfer_mem_size_not_monotone:
  "tcp_tx_buf_max_size (g_defaultBsdBufferConfig\<lparr>tcp_tx_buf_max_size := 0\<rparr>) < 1
   \<and> bsdGetTransferMemSizeForConfig (g_defaultBsdBufferConfig\<lparr>tcp_tx_buf_max_size := 0\<rparr>)
       = 0x154000
   \<and> bsdGetTransferMemSizeForConfig (g_defaultBsdBufferConfig\<lparr>tcp_tx_buf_max_size := 1\<rparr>)
       = 0x134000
   \<and> \<not> bsdGetTransferMemSizeForConfig (g_defaultBsdBufferConfig\<lparr>tcp_tx_buf_max_size := 0\<rparr>)
         \<le> bsdGetTransferMemSizeForConfig (g_defaultBsdBufferConfig\<lparr>tcp_tx_buf_max_size := 1\<rparr>)
   \<and> \<not> bsdGetTransferMemSizeForConfig (g_defaultBsdBufferConfig\<lparr>sb_efficiency := 0x1000\<rparr>)
         \<le> bsdGetTransferMemSizeForConfig (g_defaultBsdBufferConfig\<lparr>sb_efficiency := 0x2000\<rparr>)"
  by (simp add: g_defaultBsdBufferConfig_def bsdGetTransferMemSizeForConfig_def)

text \<open>
  C5 (amended): if a configuration is below another in every size field and in the
  efficiency factor (in particular when the two agree on all fields but one, which is
  larger in the second), then the computed size of the second is at least that of the
  first, provided that the reference value of the second is below \<open>2 ^ 32\<close> (no 32-bit
  wrap-around) and that a TCP maximum which goes from zero to a nonzero value is at
  least the base TCP size it replaces. The \<^verbatim>\<open>version\<close> field is not read at all.
\<close>

theorem transfer_mem_size_mono:
  assumes "tcp_tx_buf_size c1 \<le> tcp_tx_buf_size c2"
    and "tcp_rx_buf_size c1 \<le> tcp_rx_buf_size c2"
    and "tcp_tx_buf_max_size c1 \<le> tcp_tx_buf_max_size c2"
    and "tcp_rx_buf_max_size c1 \<le> tcp_rx_buf_max_size c2"
    and "udp_tx_buf_size c1 \<le> udp_tx_buf_size c2"
    and "udp_rx_buf_size c1 \<le> udp_rx_buf_size c2"
    and "sb_efficiency c1 \<le> sb_efficiency c2"
    and "tcp_tx_buf_max_size c1 = 0 \<and> tcp_tx_buf_max_size c2 \<noteq> 0
           \<longrightarrow> tcp_tx_buf_size c1 \<le> tcp_tx_buf_max_size c2"
    and "tcp_rx_buf_max_size c1 = 0 \<and> tcp_rx_buf_max_size c2 \<noteq> 0
           \<longrightarrow> tcp_rx_buf_size c1 \<le> tcp_rx_buf_max_size c2"
    and "computeTransferMemorySize_spec c2 < 2 ^ 32"
  shows "bsdGetTransferMemSizeForConfig c1 \<le> bsdGetTransferMemSizeForConfig c2"
proof -
  have tx: "maxTcpTx c1 \<le> maxTcpTx c2"
    using assms(1,3,8) by (rule maxTcpTx_mono)
  have rx: "maxTcpRx c1 \<le> maxTcpRx c2"
    using assms(2,4,9) by (rule maxTcpRx_mono)
  have udp: "unat (udp_tx_buf_size c1) \<le> unat (udp_tx_buf_size c2)"
      "unat (udp_rx_buf_size c1) \<le> unat (udp_rx_buf_size c2)"
    using assms(5,6) by (simp_all add: word_le_nat_alt)
  have eff: "unat (sb_efficiency c1) \<le> unat (sb_efficiency c2)"
    using assms(7) by (simp add: word_le_nat_alt)
  have "maxTcpTx c1 + maxTcpRx c1 + unat (udp_tx_buf_size c1) + unat (udp_rx_buf_size c1)
        \<le> maxTcpTx c2 + maxTcpRx c2 + unat (udp_tx_buf_size c2) + unat (udp_rx_buf_size c2)"
    using tx rx udp by linarith
  then have le: "computeTransferMemorySize_spec c1 \<le> computeTransferMemorySize_spec c2"
    unfolding computeTransferMemorySize_spec_def
    by (intro mult_le_mono eff roundUpToPage_mono)
  have "unat (bsdGetTransferMemSizeForConfig c1) \<le> computeTransferMemorySize_spec c1"
    by (simp only: size_mod mod_less_eq_dividend)
  also note le
  also have "computeTransferMemorySize_spec c2 = unat (bsdGetTransferMemSizeForConfig c2)"
    using assms(10) by (simp only: size_mod mod_less)
  finally show ?thesis
    by (simp only: word_le_nat_alt)
qed

text \<open>Enlarging the UDP receive size of the default configuration by one page and a byte.\<close>

theorem transfer_mem_size_mono_witness:
  "bsdGetTransferMemSizeForConfig g_defaultBsdBufferConfig
     \<le> bsdGetTransferMemSizeForConfig (g_defaultBsdBufferConfig\<lparr>udp_rx_buf_size := 0xB001\<rparr>)
   \<and> bsdGetTransferMemSizeForConfig g_defaultBsdBufferConfig = 0x234000
   \<and> bsdGetTransferMemSizeForConfig (g_defaultBsdBufferConfig\<lparr>udp_rx_buf_size := 0xB001\<rparr>) = 0x238000"
proof -
  let ?c2 = "g_defaultBsdBufferConfig\<lparr>udp_rx_buf_size := 0xB001\<rparr>"
  have h: "computeTransferMemorySize_spec ?c2 < 2 ^ 32"
    by (simp add: g_defaultBsdBufferConfig_def computeTransferMemorySize_spec_def
        roundUpToPage_def maxTcpTx_def maxTcpRx_def)
  have "bsdGetTransferMemSizeForConfig g_defaultBsdBufferConfig
     \<le> bsdGetTransferMemSizeForConfig ?c2"
    by (rule transfer_mem_size_mono [OF _ _ _ _ _ _ _ _ _ h])
       (simp_all add: g_defaultBsdBufferConfig_def)
  moreover have "bsdGetTransferMemSizeForConfig g_defaultBsdBufferConfig = 0x234000"
    by (simp add: g_defaultBsdBufferConfig_def bsdGetTransferMemSizeForConfig_def)
  moreover have "bsdGetTransferMemSizeForConfig ?c2 = 0x238000"
    by (simp add: g_defaultBsdBufferConfig_def bsdGetTransferMemSizeForConfig_def)
  ultimately show ?thesis by blast
qed

section \<open>Dispatch: what every operation does with the transport\<close>

lemma sint_scast_32_64: "sint (scast (w :: 32 word) :: 64 word) = sint w"
  by (rule sint_up_scast) (simp add: is_up)

lemma bsdDispatchBasicCommand_cases:
  "bsdDispatchBasicCommand h t c s =
     (if R_SUCCEEDED (fst (t c)) then
        if R_SUCCEEDED (ucast (resp_result (snd (t c))))
        then (resp_ret (snd (t c)), Some (snd (t c)),
              s\<lparr> sent := sent s @ [c], parses := Suc (parses s), errno := resp_errno (snd (t c)) \<rparr>)
        else (- 1, Some (snd (t c)),
              s\<lparr> sent := sent s @ [c], parses := Suc (parses s), errno := EPIPE h \<rparr>)
      else (- 1, None, s\<lparr> sent := sent s @ [c], errno := EPIPE h \<rparr>))"
  by (simp add: bsdDispatchBasicCommand_def Let_def case_prod_beta R_FAILED_def R_SUCCEEDED_def)

lemma bsdDispatchBasicCommand_sent:
  "sent (snd (snd (bsdDispatchBasicCommand h t c s))) = sent s @ [c]"
  by (simp add: bsdDispatchBasicCommand_cases)

lemma bsdDispatchBasicCommand_mem_socklen:
  "mem_socklen (snd (snd (bsdDispatchBasicCommand h t c s))) = mem_socklen s"
  by (simp add: bsdDispatchBasicCommand_cases)

lemma bsdDispatchBasicCommand_parsed:
  "fst (bsdDispatchBasicCommand h t c s) \<noteq> - 1
     \<Longrightarrow> fst (snd (bsdDispatchBasicCommand h t c s)) = Some (snd (t c))"
  by (simp add: bsdDispatchBasicCommand_cases split: if_splits)



lemma same_core_refl: "same_core s s"
  by (simp add: same_core_def)

lemma WithOutAddrlen_fst:
  "fst (bsdDispatchCommandWithOutAddrlen h t c a s) = fst (bsdDispatchBasicCommand h t c s)"
  by (simp add: bsdDispatchCommandWithOutAddrlen_def case_prod_beta Let_def split: option.splits)

lemma WithOutAddrlen_core:
  "same_core (snd (bsdDispatchCommandWithOutAddrlen h t c a s))
     (snd (snd (bsdDispatchBasicCommand h t c s)))"
  by (simp add: bsdDispatchCommandWithOutAddrlen_def case_prod_beta Let_def same_core_def
      split: option.splits)

lemma WithOutAddrlen_mem:
  "mem_socklen (snd (bsdDispatchCommandWithOutAddrlen h t c a s)) =
     (if fst (bsdDispatchBasicCommand h t c s) \<noteq> - 1 \<and> a \<noteq> NULL
      then (mem_socklen s)(a := resp_addrlen (snd (t c)))
      else mem_socklen s)"
  by (auto simp: bsdDispatchCommandWithOutAddrlen_def case_prod_beta Let_def
      bsdDispatchBasicCommand_mem_socklen dest: bsdDispatchBasicCommand_parsed
      split: option.splits)

lemma dispatchedI:
  "r = sint (fst (bsdDispatchBasicCommand h t c s))
   \<Longrightarrow> same_core s' (snd (snd (bsdDispatchBasicCommand h t c s)))
   \<Longrightarrow> dispatched h t s r s'"
  unfolding dispatched_def by blast

lemma basic_dispatched:
  "dispatched h t s (sint (fst (bsdDispatchBasicCommand h t c s)))
     (snd (snd (bsdDispatchBasicCommand h t c s)))"
  by (rule dispatchedI [where c = c]) (simp_all add: same_core_refl)

lemma basic_dispatched64:
  "dispatched h t s (sint (scast (fst (bsdDispatchBasicCommand h t c s)) :: 64 word))
     (snd (snd (bsdDispatchBasicCommand h t c s)))"
  by (rule dispatchedI [where c = c]) (simp_all add: same_core_refl sint_scast_32_64)

lemma addrlen_dispatched:
  "dispatched h t s (sint (fst (bsdDispatchCommandWithOutAddrlen h t c a s)))
     (snd (bsdDispatchCommandWithOutAddrlen h t c a s))"
  by (rule dispatchedI [where c = c]) (simp_all add: WithOutAddrlen_fst WithOutAddrlen_core)

lemma addrlen_dispatched64:
  "dispatched h t s (sint (scast (fst (bsdDispatchCommandWithOutAddrlen h t c a s)) :: 64 word))
     (snd (bsdDispatchCommandWithOutAddrlen h t c a s))"
  by (rule dispatchedI [where c = c]) (simp_all add: WithOutAddrlen_fst WithOutAddrlen_core sint_scast_32_64)

lemmas dispatched_intros = basic_dispatched basic_dispatched64 addrlen_dispatched addrlen_dispatched64

lemma bsdSocket_dispatched: "dispatched h t s (sint (fst (bsdSocket h t a b c s))) (snd (bsdSocket h t a b c s))"
  by (simp add: bsdSocket_def bsdSocketCreationCommand_def Let_def case_prod_beta dispatched_intros)

lemma bsdSysctl_dispatched: "dispatched h t s (sint (fst (bsdSysctl h t a b c d e f s))) (snd (bsdSysctl h t a b c d e f s))"
  by (rule dispatchedI [where c = "(ipcPrepareHeader
       (ipcAddRecvStatic (ipcAddRecvBuffer (ipcAddSendStatic (ipcAddSendBuffer
         (ipcAddSendStatic (ipcAddSendBuffer ipcInitialize a (ucast (4 * b)) 0) a (ucast (4 * b)) 0)
          e f 0) e f 0) c (if d = NULL then 0 else mem_size s d) 0) c (if d = NULL then 0 else mem_size s d) 0)
       (SFCI_MAGIC h) 7 [])"])
     (simp_all add: bsdSysctl_def case_prod_beta Let_def same_core_def split: option.splits)

lemma run_shape:
  assumes "bsd_call_run h t call s = Some (r, s')"
  shows "(rejected_locally h call \<and> r = - 1 \<and> s' = s\<lparr> errno := 0 \<rparr>)
         \<or> (\<not> rejected_locally h call \<and> dispatched h t s r s')"
proof (cases call)
  case (Call_bsdSysctl a b c d e f)
  with assms bsdSysctl_dispatched [of h t s a b c d e f] show ?thesis
    by (simp add: as_int_def)
next
  case (Call_bsdOpen a b)
  with assms show ?thesis
    by (auto simp: as_int_def bsdOpen_def Let_def case_prod_beta dispatched_intros split: if_splits)
next
  case (Call_bsdIoctl a b c)
  with assms show ?thesis
    by (auto simp: as_int_def bsdIoctl_def bsdIoctl_v_def Let_def case_prod_beta dispatched_intros
        split: option.splits)
next
  case (Call_bsdFnctl a b c)
  with assms show ?thesis
    by (auto simp: as_int_def bsdFnctl_def bsdFnctl_v_def Let_def case_prod_beta dispatched_intros
        split: if_splits option.splits)
qed (use assms in \<open>auto simp: as_int_def Let_def case_prod_beta dispatched_intros
      bsdSocket_def bsdSocketExempt_def bsdSocketCreationCommand_def bsdSelect_def bsdPoll_def
      bsdRecv_def bsdRecvFrom_def bsdSend_def bsdSendTo_def bsdAccept_def bsdBind_def
      bsdConnect_def bsdGetPeerName_def bsdGetSockName_def bsdNameGetterCommand_def
      bsdGetSockOpt_def bsdListen_def bsdSetSockOpt_def bsdShutdown_def
      bsdShutdownAllSockets_def bsdWrite_def bsdRead_def bsdClose_def bsdDuplicateSocket_def\<close>)

lemma sint_eq_m1: "sint (w :: 'a::len word) = - 1 \<longleftrightarrow> w = - 1"
proof
  assume "sint w = - 1"
  then have "sint w = sint (- 1 :: 'a word)"
    by (simp add: sint_n1)
  then show "w = - 1"
    by (rule signed_word_eqI)
next
  assume "w = - 1"
  then show "sint w = - 1"
    by (simp add: sint_n1)
qed

lemma dispatched_sent:
  assumes "dispatched h t s r s'" and "sent s' = sent s @ [c]"
  shows "r = sint (fst (bsdDispatchBasicCommand h t c s))"
    and "same_core s' (snd (snd (bsdDispatchBasicCommand h t c s)))"
proof -
  from assms(1) obtain c' where r: "r = sint (fst (bsdDispatchBasicCommand h t c' s))"
    and core: "same_core s' (snd (snd (bsdDispatchBasicCommand h t c' s)))"
    unfolding dispatched_def by blast
  from core have "sent s' = sent s @ [c']"
    by (simp add: same_core_def bsdDispatchBasicCommand_sent)
  with assms(2) have "c' = c" by simp
  with r core show "r = sint (fst (bsdDispatchBasicCommand h t c s))"
    and "same_core s' (snd (snd (bsdDispatchBasicCommand h t c s)))"
    by simp_all
qed

lemma run_dispatched:
  assumes "bsd_call_run h t call s = Some (r, s')" and "sent s' = sent s @ [c]"
  shows "r = sint (fst (bsdDispatchBasicCommand h t c s))"
    and "same_core s' (snd (snd (bsdDispatchBasicCommand h t c s)))"
proof -
  from run_shape [OF assms(1)] assms(2) have "dispatched h t s r s'"
    by auto
  then show "r = sint (fst (bsdDispatchBasicCommand h t c s))"
    and "same_core s' (snd (snd (bsdDispatchBasicCommand h t c s)))"
    using assms(2) by (rule dispatched_sent)+
qed

text \<open>
  Every public operation either hands exactly one command to the transport or is the
  local rejection of \<^verbatim>\<open>bsdFnctl_v\<close>.
\<close>

lemma run_dispatches_once:
  assumes "bsd_call_run h t call s = Some (r, s')"
  shows "(\<not> rejected_locally h call \<and> (\<exists>c. sent s' = sent s @ [c]))
         \<or> (rejected_locally h call \<and> r = - 1 \<and> s' = s\<lparr> errno := 0 \<rparr>)"
  using run_shape [OF assms]
  by (auto simp: dispatched_def same_core_def bsdDispatchBasicCommand_sent)


section \<open>Where the operations return\<close>


lemma bsdOpen_defined:
  "pathname \<noteq> NULL \<Longrightarrow> \<exists>r s'. bsdOpen h t pathname flags s = Some (r, s')"
  by (simp add: bsdOpen_def Let_def case_prod_beta)

lemma bsdIoctl_v_defined:
  "(\<exists>r s'. bsdIoctl_v h t fd request args s = Some (r, s'))
     \<longleftrightarrow> bsdIoctl_v_switch h request args s \<noteq> None"
  by (auto simp: bsdIoctl_v_def Let_def case_prod_beta split: option.splits)

lemma bsdIoctl_v_SIOCGIFCONF_defined:
  assumes "request = SIOCGIFCONF h" and "args = VaPtr data # rest" and "data \<noteq> NULL"
  shows "\<exists>r s'. bsdIoctl_v h t fd request args s = Some (r, s')"
  using assms by (simp add: bsdIoctl_v_defined bsdIoctl_v_switch_def)

lemma bsdIoctl_v_SIOCGIFMEDIA_defined:
  assumes "request \<noteq> SIOCGIFCONF h"
    and "request = SIOCGIFMEDIA h \<or> request = SIOCGIFXMEDIA h"
    and "args = VaPtr data # rest" and "data \<noteq> NULL"
    and "- (2 ^ 31) \<le> 8 * sint (ifm_count (mem_ifmediareq s data))"
    and "8 * sint (ifm_count (mem_ifmediareq s data)) < 2 ^ 31"
  shows "\<exists>r s'. bsdIoctl_v h t fd request args s = Some (r, s')"
  using assms by (auto simp: bsdIoctl_v_defined bsdIoctl_v_switch_def)


section \<open>Transport failure and remote failure\<close>

lemmas ipc_defs = ipcInitialize_def ipcAdd_def ipcAddSendBuffer_def ipcAddSendStatic_def
  ipcAddRecvBuffer_def ipcAddRecvStatic_def ipcPrepareHeader_def send_pair_def recv_pair_def

lemmas example_defs = example_headers_def example_state_def transport_down_def
  transport_posix_error_def transport_ok_def





section \<open>The returned address length\<close>

lemma WithOutAddrlen_sent:
  "sent (snd (bsdDispatchCommandWithOutAddrlen h t c a s)) = sent s @ [c]"
  using WithOutAddrlen_core [of h t c a s]
  by (simp add: same_core_def bsdDispatchBasicCommand_sent)

lemma WithOutAddrlen_written:
  "mem_socklen (snd (bsdDispatchCommandWithOutAddrlen h t c a s)) =
     (if sint (fst (bsdDispatchCommandWithOutAddrlen h t c a s)) \<noteq> - 1 \<and> a \<noteq> NULL
      then (mem_socklen s)(a := resp_addrlen (snd (t c)))
      else mem_socklen s)"
  by (simp only: WithOutAddrlen_mem WithOutAddrlen_fst sint_eq_m1)

lemma WithOutAddrlen_written64:
  "mem_socklen (snd (bsdDispatchCommandWithOutAddrlen h t c a s)) =
     (if sint (scast (fst (bsdDispatchCommandWithOutAddrlen h t c a s)) :: 64 word) \<noteq> - 1 \<and> a \<noteq> NULL
      then (mem_socklen s)(a := resp_addrlen (snd (t c)))
      else mem_socklen s)"
  by (simp only: WithOutAddrlen_written sint_scast_32_64)

lemma WithOutAddrlen_claim:
  "\<exists>c'. sent (snd (bsdDispatchCommandWithOutAddrlen h t c a s)) = sent s @ [c']
     \<and> mem_socklen (snd (bsdDispatchCommandWithOutAddrlen h t c a s)) =
        (if sint (fst (bsdDispatchCommandWithOutAddrlen h t c a s)) \<noteq> - 1 \<and> a \<noteq> NULL
         then (mem_socklen s)(a := resp_addrlen (snd (t c')))
         else mem_socklen s)"
  using WithOutAddrlen_sent [of h t c a s] WithOutAddrlen_written [of h t c a s] by blast

lemma WithOutAddrlen_claim64:
  "\<exists>c'. sent (snd (bsdDispatchCommandWithOutAddrlen h t c a s)) = sent s @ [c']
     \<and> mem_socklen (snd (bsdDispatchCommandWithOutAddrlen h t c a s)) =
        (if sint (scast (fst (bsdDispatchCommandWithOutAddrlen h t c a s)) :: 64 word) \<noteq> - 1 \<and> a \<noteq> NULL
         then (mem_socklen s)(a := resp_addrlen (snd (t c')))
         else mem_socklen s)"
  using WithOutAddrlen_sent [of h t c a s] WithOutAddrlen_written64 [of h t c a s] by blast

lemma as_int_WithOutAddrlen:
  assumes "as_int (bsdDispatchCommandWithOutAddrlen h t c a s) = (r, s')"
  shows "\<exists>c. sent s' = sent s @ [c]
           \<and> mem_socklen s' =
               (if r \<noteq> - 1 \<and> a \<noteq> NULL
                then (mem_socklen s)(a := resp_addrlen (snd (t c)))
                else mem_socklen s)"
proof -
  from assms have r: "r = sint (fst (bsdDispatchCommandWithOutAddrlen h t c a s))"
    and s': "s' = snd (bsdDispatchCommandWithOutAddrlen h t c a s)"
    by (simp_all add: as_int_def)
  show ?thesis unfolding r s' by (rule WithOutAddrlen_claim)
qed

lemma as_int_WithOutAddrlen64:
  assumes "as_int (scast (fst (bsdDispatchCommandWithOutAddrlen h t c a s)) :: 64 word,
                   snd (bsdDispatchCommandWithOutAddrlen h t c a s)) = (r, s')"
  shows "\<exists>c. sent s' = sent s @ [c]
           \<and> mem_socklen s' =
               (if r \<noteq> - 1 \<and> a \<noteq> NULL
                then (mem_socklen s)(a := resp_addrlen (snd (t c)))
                else mem_socklen s)"
proof -
  from assms have r: "r = sint (scast (fst (bsdDispatchCommandWithOutAddrlen h t c a s)) :: 64 word)"
    and s': "s' = snd (bsdDispatchCommandWithOutAddrlen h t c a s)"
    by (simp_all add: as_int_def)
  show ?thesis unfolding r s' by (rule WithOutAddrlen_claim64)
qed

text \<open>
  C7: for \<^verbatim>\<open>bsdAccept\<close>, \<^verbatim>\<open>bsdGetPeerName\<close>, \<^verbatim>\<open>bsdGetSockName\<close> and \<^verbatim>\<open>bsdRecvFrom\<close> (the
  operations with a trailing address length in the reply), the operation sends one
  command \<open>c\<close>, and the caller's \<^verbatim>\<open>socklen_t\<close> memory afterwards is the memory before with
  the cell at \<open>addrlen\<close> overwritten by the reply's trailing field exactly if the return
  value is not \<open>-1\<close> and \<open>addrlen\<close> is not null; otherwise that memory is unchanged.
\<close>

theorem addrlen_written_iff:
  assumes "addrlen_arg call = Some addrlen"
    and "bsd_call_run h t call s = Some (r, s')"
  shows "\<exists>c. sent s' = sent s @ [c]
           \<and> mem_socklen s' =
               (if r \<noteq> - 1 \<and> addrlen \<noteq> NULL
                then (mem_socklen s)(addrlen := resp_addrlen (snd (t c)))
                else mem_socklen s)"
proof (cases call)
  case (Call_bsdAccept sockfd addr a)
  with assms have a: "a = addrlen" by simp
  from assms(2) Call_bsdAccept show ?thesis unfolding a
    by (simp only: bsd_call_run.simps option.inject bsdAccept_def bsdNameGetterCommand_def Let_def)
       (rule as_int_WithOutAddrlen)
next
  case (Call_bsdGetPeerName sockfd addr a)
  with assms have a: "a = addrlen" by simp
  from assms(2) Call_bsdGetPeerName show ?thesis unfolding a
    by (simp only: bsd_call_run.simps option.inject bsdGetPeerName_def bsdNameGetterCommand_def Let_def)
       (rule as_int_WithOutAddrlen)
next
  case (Call_bsdGetSockName sockfd addr a)
  with assms have a: "a = addrlen" by simp
  from assms(2) Call_bsdGetSockName show ?thesis unfolding a
    by (simp only: bsd_call_run.simps option.inject bsdGetSockName_def bsdNameGetterCommand_def Let_def)
       (rule as_int_WithOutAddrlen)
next
  case (Call_bsdRecvFrom sockfd buf len flags src_addr a)
  with assms have a: "a = addrlen" by simp
  from assms(2) Call_bsdRecvFrom show ?thesis unfolding a
    by (simp only: bsd_call_run.simps option.inject bsdRecvFrom_def Let_def case_prod_beta)
       (rule as_int_WithOutAddrlen64)
qed (use assms(1) in simp_all)

text \<open>
  \<^verbatim>\<open>bsdAccept\<close> with the length variable at \<open>0x1200\<close>: a reply with return value 7 and
  trailing field 28 stores 28 there; a reply with return value \<open>-1\<close> leaves the memory
  as it was.
\<close>

theorem addrlen_written_iff_witness:
  "addrlen_arg (Call_bsdAccept 3 0x1100 0x1200) = Some 0x1200
   \<and> bsd_call_run example_headers transport_ok (Call_bsdAccept 3 0x1100 0x1200) example_state
       = Some (7, example_state
           \<lparr> errno := 0,
             sent := [\<lparr> Buffers = recv_pair 0x1100 16 0, raw_magic = 0x49434653, raw_cmd_id = 12,
                        raw_args = [(''sockfd'', SInt 3)] \<rparr>],
             parses := 1,
             mem_socklen := (mem_socklen example_state)(0x1200 := 28) \<rparr>)
   \<and> bsd_call_run example_headers transport_posix_error (Call_bsdAccept 3 0x1100 0x1200) example_state
       = Some (- 1, example_state
           \<lparr> errno := 111,
             sent := [\<lparr> Buffers = recv_pair 0x1100 16 0, raw_magic = 0x49434653, raw_cmd_id = 12,
                        raw_args = [(''sockfd'', SInt 3)] \<rparr>],
             parses := 1 \<rparr>)"
proof -
  have arg: "addrlen_arg (Call_bsdAccept 3 0x1100 0x1200) = Some 0x1200"
    by simp
  have run1: "bsd_call_run example_headers transport_ok (Call_bsdAccept 3 0x1100 0x1200) example_state
       = Some (7, example_state
           \<lparr> errno := 0,
             sent := [\<lparr> Buffers = recv_pair 0x1100 16 0, raw_magic = 0x49434653, raw_cmd_id = 12,
                        raw_args = [(''sockfd'', SInt 3)] \<rparr>],
             parses := 1,
             mem_socklen := (mem_socklen example_state)(0x1200 := 28) \<rparr>)"
    by (simp add: as_int_def bsdAccept_def bsdNameGetterCommand_def
        bsdDispatchCommandWithOutAddrlen_def bsdDispatchBasicCommand_def Let_def ipc_defs
        example_defs R_SUCCEEDED_def R_FAILED_def NULL_def resp_addrlen_def)
  have run2: "bsd_call_run example_headers transport_posix_error (Call_bsdAccept 3 0x1100 0x1200) example_state
       = Some (- 1, example_state
           \<lparr> errno := 111,
             sent := [\<lparr> Buffers = recv_pair 0x1100 16 0, raw_magic = 0x49434653, raw_cmd_id = 12,
                        raw_args = [(''sockfd'', SInt 3)] \<rparr>],
             parses := 1 \<rparr>)"
    by (simp add: as_int_def bsdAccept_def bsdNameGetterCommand_def
        bsdDispatchCommandWithOutAddrlen_def bsdDispatchBasicCommand_def Let_def ipc_defs
        example_defs R_SUCCEEDED_def R_FAILED_def NULL_def resp_addrlen_def)
  from addrlen_written_iff [OF arg run1] addrlen_written_iff [OF arg run2] arg run1 run2
  show ?thesis by blast
qed

section \<open>fcntl\<close>

text \<open>
  C8: for every descriptor \<open>fd\<close>, \<^verbatim>\<open>bsdFnctl_v\<close> (and the variadic \<^verbatim>\<open>bsdFnctl\<close>) called
  with \<^verbatim>\<open>F_GETFL\<close> or \<^verbatim>\<open>F_SETFL\<close> returns \<open>-1\<close> with \<open>errno\<close> set to 0. The state
  afterwards differs from the state before in \<open>errno\<close> only, so nothing was handed to the
  transport: the log \<open>sent\<close> and the counter \<open>parses\<close> are those of \<open>s\<close>.
\<close>

theorem fcntl_flags_rejected:
  assumes "cmd = F_GETFL h \<or> cmd = F_SETFL h"
  shows "bsdFnctl_v h t fd cmd args s = Some (- 1, s\<lparr> errno := 0 \<rparr>)
         \<and> bsdFnctl h t fd cmd args s = Some (- 1, s\<lparr> errno := 0 \<rparr>)
         \<and> bsd_call_run h t (Call_bsdFnctl fd cmd args) s = Some (- 1, s\<lparr> errno := 0 \<rparr>)"
  using assms by (simp add: bsdFnctl_v_def bsdFnctl_def as_int_def sint_n1)

text \<open>Both rejected codes, starting with \<open>errno\<close> 9 and over a transport that would answer.\<close>

theorem fcntl_flags_rejected_witness:
  "bsdFnctl_v example_headers transport_ok 5 3 [] (example_state\<lparr> errno := 9 \<rparr>)
     = Some (- 1, example_state)
   \<and> bsdFnctl_v example_headers transport_ok 5 4 [VaInt 2048] (example_state\<lparr> errno := 9 \<rparr>)
     = Some (- 1, example_state)
   \<and> sent example_state = [] \<and> errno example_state = 0"
proof -
  have g: "3 = F_GETFL example_headers \<or> 3 = F_SETFL example_headers"
    and s: "4 = F_GETFL example_headers \<or> 4 = F_SETFL example_headers"
    by (simp_all add: example_headers_def)
  from fcntl_flags_rejected [OF g, of transport_ok 5 "[]" "example_state\<lparr> errno := 9 \<rparr>"]
    fcntl_flags_rejected [OF s, of transport_ok 5 "[VaInt 2048]" "example_state\<lparr> errno := 9 \<rparr>"]
  show ?thesis
    by (simp add: example_state_def)
qed

text \<open>
  C9, as stated, at a concrete input: request code 2 is neither \<^verbatim>\<open>F_GETFL\<close> (3) nor
  \<^verbatim>\<open>F_SETFL\<close> (4), and the call carries the variadic argument 1; the command that is
  sent has \<^verbatim>\<open>arg\<close> 0, not 1.
\<close>

theorem fcntl_variadic_argument_dropped:
  "va_arg_int [VaInt 1] = Some 1
   \<and> 2 \<noteq> F_GETFL example_headers \<and> 2 \<noteq> F_SETFL example_headers
   \<and> bsdFnctl_v example_headers transport_ok 5 2 [VaInt 1] example_state
       = Some (7, example_state
           \<lparr> errno := 0,
             sent := [\<lparr> Buffers = [], raw_magic = 0x49434653, raw_cmd_id = 20,
                        raw_args = [(''fd'', SInt 5), (''cmd'', SInt 2), (''arg'', SInt 0)] \<rparr>],
             parses := 1 \<rparr>)
   \<and> SInt 0 \<noteq> SInt 1"
  by (simp add: bsdFnctl_v_def bsdDispatchBasicCommand_def Let_def ipc_defs example_defs
      R_SUCCEEDED_def R_FAILED_def)

text \<open>
  C9 (amended): for every request code other than \<^verbatim>\<open>F_GETFL\<close> and \<^verbatim>\<open>F_SETFL\<close>, whatever
  the variadic arguments are, the operation sends exactly one command, with operation
  code 20, no buffer descriptor, and the three scalars \<^verbatim>\<open>fd\<close>, \<^verbatim>\<open>cmd\<close> and \<^verbatim>\<open>arg\<close>, where
  \<^verbatim>\<open>arg\<close> is always 0: the variadic argument is never read.
\<close>

theorem fcntl_forwards_zero_argument:
  assumes "cmd \<noteq> F_GETFL h" and "cmd \<noteq> F_SETFL h"
  shows "\<exists>ret s'. bsdFnctl_v h t fd cmd args s = Some (ret, s')
           \<and> sent s' = sent s @
               [\<lparr> Buffers = [], raw_magic = SFCI_MAGIC h, raw_cmd_id = 20,
                  raw_args = [(''fd'', SInt fd), (''cmd'', SInt cmd), (''arg'', SInt 0)] \<rparr>]"
  using assms
  by (simp add: bsdFnctl_v_def Let_def case_prod_beta bsdDispatchBasicCommand_sent ipc_defs)

text \<open>Request code 2 with the variadic argument 1.\<close>

theorem fcntl_forwards_zero_argument_witness:
  "2 \<noteq> F_GETFL example_headers \<and> 2 \<noteq> F_SETFL example_headers
   \<and> (\<exists>ret s'. bsdFnctl_v example_headers transport_ok 5 2 [VaInt 1] example_state = Some (ret, s')
         \<and> sent s' = [\<lparr> Buffers = [], raw_magic = 0x49434653, raw_cmd_id = 20,
                  raw_args = [(''fd'', SInt 5), (''cmd'', SInt 2), (''arg'', SInt 0)] \<rparr>])"
proof -
  have a: "2 \<noteq> F_GETFL example_headers" and b: "2 \<noteq> F_SETFL example_headers"
    by (simp_all add: example_headers_def)
  from fcntl_forwards_zero_argument [OF a b, of transport_ok 5 "[VaInt 1]" example_state] a b
  show ?thesis
    by (simp add: example_headers_def example_state_def)
qed

section \<open>poll\<close>

text \<open>
  C10: for every \<open>nfds\<close>, \<^verbatim>\<open>bsdPoll\<close> sends one command whose four buffer descriptors
  (send buffer, send static, receive buffer, receive static) all point at \<open>fds\<close> with
  length \<^verbatim>\<open>sizeof(struct pollfd)\<close>, the size of one element, whatever \<open>nfds\<close> is;
  \<open>nfds\<close> itself travels as a scalar of the header.
\<close>

theorem poll_buffers_single_element:
  "sent (snd (bsdPoll h t fds nfds timeout s)) = sent s @
     [\<lparr> Buffers = send_pair fds (sizeof_pollfd h) 0 @ recv_pair fds (sizeof_pollfd h) 0,
        raw_magic = SFCI_MAGIC h, raw_cmd_id = 6,
        raw_args = [(''nfds'', SU32 nfds), (''timeout'', SInt timeout)] \<rparr>]"
  by (simp add: bsdPoll_def Let_def case_prod_beta bsdDispatchBasicCommand_sent ipc_defs)

text \<open>Five descriptors to poll, and still 8 bytes described.\<close>

theorem poll_buffers_single_element_witness:
  "sent (snd (bsdPoll example_headers transport_ok 0x4000 5 1000 example_state)) =
     [\<lparr> Buffers = send_pair 0x4000 8 0 @ recv_pair 0x4000 8 0,
        raw_magic = 0x49434653, raw_cmd_id = 6,
        raw_args = [(''nfds'', SU32 5), (''timeout'', SInt 1000)] \<rparr>]"
  using poll_buffers_single_element [of example_headers transport_ok "0x4000" 5 1000 example_state]
  by (simp add: example_headers_def example_state_def)

section \<open>ioctl\<close>

lemma scast_mult8:
  assumes "\<not> (8 * sint w < - (2 ^ 31) \<or> 2 ^ 31 \<le> 8 * sint w)"
  shows "(scast (8 * w :: 32 word) :: 64 word) = of_int (8 * sint w)"
proof -
  have "sint (8 * w) = signed_take_bit 31 (sint (8 :: 32 word) * sint w)"
    by (simp add: sint_word_mult)
  also have "sint (8 :: 32 word) = 8"
    by simp
  also have "signed_take_bit 31 (8 * sint w) = 8 * sint w"
    using assms by (intro signed_take_bit_int_eq_self) simp_all
  finally show ?thesis
    by (simp only: scast_eq)
qed

lemma bsdIoctl_v_sent:
  assumes "bsdIoctl_v h t fd request args s = Some (r, s')"
  shows "\<exists>b. bsdIoctl_v_switch h request args s = Some b
           \<and> sent s' = sent s @
               [\<lparr> Buffers = send_pair (in1 b) (in1sz b) 0 @ send_pair (in2 b) (in2sz b) 0
                            @ send_pair NULL 0 0 @ send_pair NULL 0 0
                            @ recv_pair (out1 b) (out1sz b) 0 @ recv_pair (out2 b) (out2sz b) 0
                            @ recv_pair NULL 0 0 @ recv_pair NULL 0 0,
                  raw_magic = SFCI_MAGIC h, raw_cmd_id = 19,
                  raw_args = [(''fd'', SInt fd), (''request'', SInt request),
                              (''bufcount'', SInt (bufcount b))] \<rparr>]"
  using assms
  by (auto simp: bsdIoctl_v_def Let_def case_prod_beta bsdDispatchBasicCommand_sent ipc_defs
      split: option.splits)

lemma scast_of_int: "(scast (w :: 32 word) :: 64 word) = of_int (sint w)"
  by (rule scast_eq)

lemma switch_SIOCGIFCONF:
  assumes "bsdIoctl_v_switch h request args s = Some b" and "request = SIOCGIFCONF h"
  shows "\<exists>data. va_arg_ptr args = Some data \<and> data \<noteq> NULL
           \<and> b = \<lparr> in1 = data, in1sz = sizeof_ifconf h,
                   in2 = ifc_req (mem_ifconf s data),
                   in2sz = of_int (sint (ifc_len (mem_ifconf s data))),
                   out1 = data, out1sz = sizeof_ifconf h,
                   out2 = ifc_req (mem_ifconf s data),
                   out2sz = of_int (sint (ifc_len (mem_ifconf s data))),
                   bufcount = 2 \<rparr>"
proof -
  from assms obtain data where d: "va_arg_ptr args = Some data" "data \<noteq> NULL"
    and b: "b = \<lparr> in1 = data, in1sz = sizeof_ifconf h,
                   in2 = ifc_req (mem_ifconf s data),
                   in2sz = scast (ifc_len (mem_ifconf s data)),
                   out1 = data, out1sz = sizeof_ifconf h,
                   out2 = ifc_req (mem_ifconf s data),
                   out2sz = scast (ifc_len (mem_ifconf s data)),
                   bufcount = 2 \<rparr>"
    by (auto simp: bsdIoctl_v_switch_def split: option.splits if_splits)
  from d b show ?thesis
    unfolding scast_of_int by blast
qed

lemma switch_SIOCGIFMEDIA:
  assumes "bsdIoctl_v_switch h request args s = Some b"
    and "request \<noteq> SIOCGIFCONF h"
    and "request = SIOCGIFMEDIA h \<or> request = SIOCGIFXMEDIA h"
  shows "\<exists>data. va_arg_ptr args = Some data \<and> data \<noteq> NULL
           \<and> b = \<lparr> in1 = data, in1sz = sizeof_ifmediareq h,
                   in2 = ifm_ulist (mem_ifmediareq s data),
                   in2sz = of_int (8 * sint (ifm_count (mem_ifmediareq s data))),
                   out1 = data, out1sz = sizeof_ifmediareq h,
                   out2 = ifm_ulist (mem_ifmediareq s data),
                   out2sz = of_int (8 * sint (ifm_count (mem_ifmediareq s data))),
                   bufcount = 2 \<rparr>"
proof -
  from assms obtain data where d: "va_arg_ptr args = Some data" "data \<noteq> NULL"
    and ok: "\<not> (8 * sint (ifm_count (mem_ifmediareq s data)) < - (2 ^ 31)
               \<or> 2 ^ 31 \<le> 8 * sint (ifm_count (mem_ifmediareq s data)))"
    and b: "b = \<lparr> in1 = data, in1sz = sizeof_ifmediareq h,
                   in2 = ifm_ulist (mem_ifmediareq s data),
                   in2sz = scast (8 * ifm_count (mem_ifmediareq s data)),
                   out1 = data, out1sz = sizeof_ifmediareq h,
                   out2 = ifm_ulist (mem_ifmediareq s data),
                   out2sz = scast (8 * ifm_count (mem_ifmediareq s data)),
                   bufcount = 2 \<rparr>"
    by (auto simp: bsdIoctl_v_switch_def split: option.splits if_splits)
  from d b show ?thesis
    unfolding scast_mult8 [OF ok] by blast
qed

text \<open>
  C6: whenever \<^verbatim>\<open>bsdIoctl_v\<close> returns, for the request code \<^verbatim>\<open>SIOCGIFCONF\<close> the second
  send pair and the second receive pair of the command point at \<^verbatim>\<open>data->ifc_req\<close> and
  have the length \<^verbatim>\<open>data->ifc_len\<close> (the \<^verbatim>\<open>int\<close> converted to \<^verbatim>\<open>size_t\<close>), and for the
  request codes \<^verbatim>\<open>SIOCGIFMEDIA\<close> and \<^verbatim>\<open>SIOCGIFXMEDIA\<close> they point at \<^verbatim>\<open>data->ifm_ulist\<close>
  and have the length \<^verbatim>\<open>8 * data->ifm_count\<close>, where \<open>data\<close> is the variadic pointer. The
  lengths are read from the caller's structure, not fixed; the first pair has the size of
  the structure.
\<close>

theorem ioctl_second_buffer_length:
  assumes "bsdIoctl_v h t fd request args s = Some (r, s')"
  shows "(request = SIOCGIFCONF h \<longrightarrow>
            (\<exists>data. va_arg_ptr args = Some data \<and> sent s' = sent s @
               [\<lparr> Buffers =
                    send_pair data (sizeof_ifconf h) 0
                    @ send_pair (ifc_req (mem_ifconf s data))
                        (of_int (sint (ifc_len (mem_ifconf s data)))) 0
                    @ send_pair NULL 0 0 @ send_pair NULL 0 0
                    @ recv_pair data (sizeof_ifconf h) 0
                    @ recv_pair (ifc_req (mem_ifconf s data))
                        (of_int (sint (ifc_len (mem_ifconf s data)))) 0
                    @ recv_pair NULL 0 0 @ recv_pair NULL 0 0,
                  raw_magic = SFCI_MAGIC h, raw_cmd_id = 19,
                  raw_args = [(''fd'', SInt fd), (''request'', SInt request),
                              (''bufcount'', SInt 2)] \<rparr>]))
       \<and> (request \<noteq> SIOCGIFCONF h \<and> (request = SIOCGIFMEDIA h \<or> request = SIOCGIFXMEDIA h) \<longrightarrow>
            (\<exists>data. va_arg_ptr args = Some data \<and> sent s' = sent s @
               [\<lparr> Buffers =
                    send_pair data (sizeof_ifmediareq h) 0
                    @ send_pair (ifm_ulist (mem_ifmediareq s data))
                        (of_int (8 * sint (ifm_count (mem_ifmediareq s data)))) 0
                    @ send_pair NULL 0 0 @ send_pair NULL 0 0
                    @ recv_pair data (sizeof_ifmediareq h) 0
                    @ recv_pair (ifm_ulist (mem_ifmediareq s data))
                        (of_int (8 * sint (ifm_count (mem_ifmediareq s data)))) 0
                    @ recv_pair NULL 0 0 @ recv_pair NULL 0 0,
                  raw_magic = SFCI_MAGIC h, raw_cmd_id = 19,
                  raw_args = [(''fd'', SInt fd), (''request'', SInt request),
                              (''bufcount'', SInt 2)] \<rparr>]))"
proof -
  from bsdIoctl_v_sent [OF assms] obtain b where
    sw: "bsdIoctl_v_switch h request args s = Some b"
    and sent: "sent s' = sent s @
               [\<lparr> Buffers = send_pair (in1 b) (in1sz b) 0 @ send_pair (in2 b) (in2sz b) 0
                            @ send_pair NULL 0 0 @ send_pair NULL 0 0
                            @ recv_pair (out1 b) (out1sz b) 0 @ recv_pair (out2 b) (out2sz b) 0
                            @ recv_pair NULL 0 0 @ recv_pair NULL 0 0,
                  raw_magic = SFCI_MAGIC h, raw_cmd_id = 19,
                  raw_args = [(''fd'', SInt fd), (''request'', SInt request),
                              (''bufcount'', SInt (bufcount b))] \<rparr>]"
    by blast
  show ?thesis
  proof (intro conjI impI)
    assume "request = SIOCGIFCONF h"
    from switch_SIOCGIFCONF [OF sw this] sent
    show "\<exists>data. va_arg_ptr args = Some data \<and> sent s' = sent s @
               [\<lparr> Buffers =
                    send_pair data (sizeof_ifconf h) 0
                    @ send_pair (ifc_req (mem_ifconf s data))
                        (of_int (sint (ifc_len (mem_ifconf s data)))) 0
                    @ send_pair NULL 0 0 @ send_pair NULL 0 0
                    @ recv_pair data (sizeof_ifconf h) 0
                    @ recv_pair (ifc_req (mem_ifconf s data))
                        (of_int (sint (ifc_len (mem_ifconf s data)))) 0
                    @ recv_pair NULL 0 0 @ recv_pair NULL 0 0,
                  raw_magic = SFCI_MAGIC h, raw_cmd_id = 19,
                  raw_args = [(''fd'', SInt fd), (''request'', SInt request),
                              (''bufcount'', SInt 2)] \<rparr>]"
      by auto
  next
    assume "request \<noteq> SIOCGIFCONF h \<and> (request = SIOCGIFMEDIA h \<or> request = SIOCGIFXMEDIA h)"
    then have a: "request \<noteq> SIOCGIFCONF h" and b: "request = SIOCGIFMEDIA h \<or> request = SIOCGIFXMEDIA h"
      by simp_all
    from switch_SIOCGIFMEDIA [OF sw a b] sent
    show "\<exists>data. va_arg_ptr args = Some data \<and> sent s' = sent s @
               [\<lparr> Buffers =
                    send_pair data (sizeof_ifmediareq h) 0
                    @ send_pair (ifm_ulist (mem_ifmediareq s data))
                        (of_int (8 * sint (ifm_count (mem_ifmediareq s data)))) 0
                    @ send_pair NULL 0 0 @ send_pair NULL 0 0
                    @ recv_pair data (sizeof_ifmediareq h) 0
                    @ recv_pair (ifm_ulist (mem_ifmediareq s data))
                        (of_int (8 * sint (ifm_count (mem_ifmediareq s data)))) 0
                    @ recv_pair NULL 0 0 @ recv_pair NULL 0 0,
                  raw_magic = SFCI_MAGIC h, raw_cmd_id = 19,
                  raw_args = [(''fd'', SInt fd), (''request'', SInt request),
                              (''bufcount'', SInt 2)] \<rparr>]"
      by auto
  qed
qed

lemmas dispatch_defs = bsdDispatchCommandWithOutAddrlen_def bsdDispatchBasicCommand_def
  R_SUCCEEDED_def R_FAILED_def NULL_def resp_addrlen_def resp_oldlenp_def

text \<open>
  An interface list of 64 bytes gives a second buffer of 64 bytes, a media request with
  3 entries one of 24 bytes.
\<close>

theorem ioctl_second_buffer_length_witness:
  "bsdIoctl_v example_headers transport_ok 3 (SIOCGIFCONF example_headers) [VaPtr 0x500] example_state
     = Some (7, example_state
         \<lparr> errno := 0,
           sent := [\<lparr> Buffers = send_pair 0x500 16 0 @ send_pair 0x2000 64 0
                                @ send_pair NULL 0 0 @ send_pair NULL 0 0
                                @ recv_pair 0x500 16 0 @ recv_pair 0x2000 64 0
                                @ recv_pair NULL 0 0 @ recv_pair NULL 0 0,
                      raw_magic = 0x49434653, raw_cmd_id = 19,
                      raw_args = [(''fd'', SInt 3), (''request'', SInt 0xC0106924),
                                  (''bufcount'', SInt 2)] \<rparr>],
           parses := 1 \<rparr>)
   \<and> bsdIoctl_v example_headers transport_ok 3 (SIOCGIFMEDIA example_headers) [VaPtr 0x500] example_state
     = Some (7, example_state
         \<lparr> errno := 0,
           sent := [\<lparr> Buffers = send_pair 0x500 48 0 @ send_pair 0x3000 24 0
                                @ send_pair NULL 0 0 @ send_pair NULL 0 0
                                @ recv_pair 0x500 48 0 @ recv_pair 0x3000 24 0
                                @ recv_pair NULL 0 0 @ recv_pair NULL 0 0,
                      raw_magic = 0x49434653, raw_cmd_id = 19,
                      raw_args = [(''fd'', SInt 3), (''request'', SInt 0xC0306938),
                                  (''bufcount'', SInt 2)] \<rparr>],
           parses := 1 \<rparr>)
   \<and> ifc_len (mem_ifconf example_state 0x500) = 64
   \<and> ifm_count (mem_ifmediareq example_state 0x500) = 3"
proof -
  let ?s1 = "example_state
         \<lparr> errno := 0,
           sent := [\<lparr> Buffers = send_pair 0x500 16 0 @ send_pair 0x2000 64 0
                                @ send_pair NULL 0 0 @ send_pair NULL 0 0
                                @ recv_pair 0x500 16 0 @ recv_pair 0x2000 64 0
                                @ recv_pair NULL 0 0 @ recv_pair NULL 0 0,
                      raw_magic = 0x49434653, raw_cmd_id = 19,
                      raw_args = [(''fd'', SInt 3), (''request'', SInt 0xC0106924),
                                  (''bufcount'', SInt 2)] \<rparr>],
           parses := 1 \<rparr>"
  let ?s2 = "example_state
         \<lparr> errno := 0,
           sent := [\<lparr> Buffers = send_pair 0x500 48 0 @ send_pair 0x3000 24 0
                                @ send_pair NULL 0 0 @ send_pair NULL 0 0
                                @ recv_pair 0x500 48 0 @ recv_pair 0x3000 24 0
                                @ recv_pair NULL 0 0 @ recv_pair NULL 0 0,
                      raw_magic = 0x49434653, raw_cmd_id = 19,
                      raw_args = [(''fd'', SInt 3), (''request'', SInt 0xC0306938),
                                  (''bufcount'', SInt 2)] \<rparr>],
           parses := 1 \<rparr>"
  have run1: "bsdIoctl_v example_headers transport_ok 3 (SIOCGIFCONF example_headers)
                [VaPtr 0x500] example_state = Some (7, ?s1)"
    by (simp add: bsdIoctl_v_def bsdIoctl_v_switch_def Let_def dispatch_defs ipc_defs example_defs)
  have run2: "bsdIoctl_v example_headers transport_ok 3 (SIOCGIFMEDIA example_headers)
                [VaPtr 0x500] example_state = Some (7, ?s2)"
    by (simp add: bsdIoctl_v_def bsdIoctl_v_switch_def Let_def dispatch_defs ipc_defs example_defs)
  have m: "SIOCGIFMEDIA example_headers \<noteq> SIOCGIFCONF example_headers
           \<and> (SIOCGIFMEDIA example_headers = SIOCGIFMEDIA example_headers
                \<or> SIOCGIFMEDIA example_headers = SIOCGIFXMEDIA example_headers)"
    by (simp add: example_headers_def)
  have v: "ifc_len (mem_ifconf example_state 0x500) = 64"
      "ifm_count (mem_ifmediareq example_state 0x500) = 3"
    by (simp_all add: example_state_def)
  from ioctl_second_buffer_length [OF run1] ioctl_second_buffer_length [OF run2] m run1 run2 v
  show ?thesis
    by blast
qed

text \<open>Lengths that come from different field values differ.\<close>

lemma scast_32_64_inj: "(of_int (sint (a :: 32 word)) :: 64 word) = of_int (sint b) \<longleftrightarrow> a = b"
proof
  assume "(of_int (sint a) :: 64 word) = of_int (sint b)"
  then have "sint (scast a :: 64 word) = sint (scast b :: 64 word)"
    by (simp only: scast_eq)
  then have "sint a = sint b"
    by (simp only: sint_scast_32_64)
  then show "a = b"
    by (rule signed_word_eqI)
qed simp

section \<open>Pairs of buffer descriptors\<close>

lemma bsdRecvFrom_sent:
  "sent (snd (bsdRecvFrom h t sockfd buf len flags src_addr addrlen s)) = sent s @
     [\<lparr> Buffers = recv_pair buf len 0 @
          [\<lparr> d_kind = RecvBuffer, d_ptr = src_addr,
             d_size = ucast (if addrlen = NULL then 0 else mem_socklen s addrlen), d_flags = 0 \<rparr>,
           \<lparr> d_kind = RecvBuffer, d_ptr = src_addr,
             d_size = ucast (if addrlen = NULL then 0 else mem_socklen s addrlen), d_flags = 0 \<rparr>],
        raw_magic = SFCI_MAGIC h, raw_cmd_id = 9,
        raw_args = [(''sockfd'', SInt sockfd), (''flags'', SInt flags)] \<rparr>]"
  by (simp add: bsdRecvFrom_def Let_def case_prod_beta WithOutAddrlen_sent ipc_defs)

lemma bsdRecvFrom_not_paired:
  assumes "sent (snd (bsdRecvFrom h t sockfd buf len flags src_addr addrlen s)) = sent s @ [c]"
  shows "\<not> paired (Buffers c)"
  using assms unfolding bsdRecvFrom_sent by (auto simp: recv_pair_def)

lemma bsdNameGetterCommand_sent:
  "sent (snd (bsdNameGetterCommand h t cmd_id sockfd addr addrlen s)) = sent s @
     [\<lparr> Buffers = recv_pair addr (ucast (if addrlen = NULL then 0 else mem_socklen s addrlen)) 0,
        raw_magic = SFCI_MAGIC h, raw_cmd_id = ucast cmd_id,
        raw_args = [(''sockfd'', SInt sockfd)] \<rparr>]"
  by (simp add: bsdNameGetterCommand_def Let_def case_prod_beta WithOutAddrlen_sent ipc_defs)

lemma paired_send_pair [simp]: "paired (send_pair p sz fl @ ds) = paired ds"
  by (simp add: send_pair_def)

lemma paired_recv_pair [simp]: "paired (recv_pair p sz fl @ ds) = paired ds"
  by (simp add: recv_pair_def)

lemma paired_single_pair [simp]: "paired (send_pair p sz fl)" "paired (recv_pair p sz fl)"
  by (simp_all add: send_pair_def recv_pair_def)

lemma bsdSysctl_sent:
  "sent (snd (bsdSysctl h t name namelen oldp oldlenp newp newlen s)) = sent s @
     [\<lparr> Buffers = send_pair name (ucast (4 * namelen)) 0 @ send_pair newp newlen 0
                  @ recv_pair oldp (if oldlenp = NULL then 0 else mem_size s oldlenp) 0,
        raw_magic = SFCI_MAGIC h, raw_cmd_id = 7, raw_args = [] \<rparr>]"
  by (simp add: bsdSysctl_def Let_def case_prod_beta bsdDispatchBasicCommand_sent ipc_defs
      split: option.splits)

text \<open>
  C1 at a concrete call of \<^verbatim>\<open>bsdRecvFrom\<close> (payload buffer at \<open>0x1000\<close> of 100 bytes,
  source address at \<open>0x1100\<close>, its length variable holding 16): the payload gets a
  receive-buffer and a receive-static descriptor, but the source address gets two
  receive-buffer descriptors and no receive-static descriptor, so the descriptor list is
  not made of dynamic/static pairs. The sibling \<^verbatim>\<open>bsdGetPeerName\<close> describes its address
  parameter with one descriptor of each kind.
\<close>

theorem bsdRecvFrom_source_address_descriptors:
  "sent (snd (bsdRecvFrom example_headers transport_ok 3 0x1000 100 0 0x1100 0x1200 example_state))
     = [\<lparr> Buffers =
            [\<lparr> d_kind = RecvBuffer, d_ptr = 0x1000, d_size = 100, d_flags = 0 \<rparr>,
             \<lparr> d_kind = RecvStatic, d_ptr = 0x1000, d_size = 100, d_flags = 0 \<rparr>,
             \<lparr> d_kind = RecvBuffer, d_ptr = 0x1100, d_size = 16, d_flags = 0 \<rparr>,
             \<lparr> d_kind = RecvBuffer, d_ptr = 0x1100, d_size = 16, d_flags = 0 \<rparr>],
          raw_magic = 0x49434653, raw_cmd_id = 9,
          raw_args = [(''sockfd'', SInt 3), (''flags'', SInt 0)] \<rparr>]
   \<and> \<not> paired
          [\<lparr> d_kind = RecvBuffer, d_ptr = 0x1000, d_size = 100, d_flags = 0 \<rparr>,
           \<lparr> d_kind = RecvStatic, d_ptr = 0x1000, d_size = 100, d_flags = 0 \<rparr>,
           \<lparr> d_kind = RecvBuffer, d_ptr = 0x1100, d_size = 16, d_flags = 0 \<rparr>,
           \<lparr> d_kind = RecvBuffer, d_ptr = 0x1100, d_size = 16, d_flags = 0 \<rparr>]
   \<and> sent (snd (bsdGetPeerName example_headers transport_ok 3 0x1100 0x1200 example_state))
     = [\<lparr> Buffers =
            [\<lparr> d_kind = RecvBuffer, d_ptr = 0x1100, d_size = 16, d_flags = 0 \<rparr>,
             \<lparr> d_kind = RecvStatic, d_ptr = 0x1100, d_size = 16, d_flags = 0 \<rparr>],
          raw_magic = 0x49434653, raw_cmd_id = 15,
          raw_args = [(''sockfd'', SInt 3)] \<rparr>]"
  by (simp add: bsdRecvFrom_sent bsdGetPeerName_def bsdNameGetterCommand_sent recv_pair_def
      example_headers_def example_state_def NULL_def)

text \<open>
  Every public operation other than \<^verbatim>\<open>bsdRecvFrom\<close> either sends nothing (the rejected
  \<^verbatim>\<open>fcntl\<close> requests) or sends one command whose descriptors are dynamic/static pairs.
\<close>

lemma other_operations_paired:
  assumes "bsd_call_run h t call s = Some (r, s')"
    and "\<And>sockfd buf len flags src_addr addrlen.
           call \<noteq> Call_bsdRecvFrom sockfd buf len flags src_addr addrlen"
  shows "sent s' = sent s \<or> (\<exists>c. sent s' = sent s @ [c] \<and> paired (Buffers c))"
proof (cases call)
  case (Call_bsdRecvFrom a b c d e f)
  with assms(2) [of a b c d e f] show ?thesis by simp
next
  case (Call_bsdSysctl a b c d e f)
  with assms(1) show ?thesis
    by (auto simp: as_int_def bsdSysctl_sent)
next
  case (Call_bsdIoctl a b c)
  with assms(1) show ?thesis
    by (auto simp: as_int_def bsdIoctl_def dest!: bsdIoctl_v_sent)
next
  case (Call_bsdFnctl a b c)
  with assms(1) show ?thesis
    by (auto simp: as_int_def bsdFnctl_def bsdFnctl_v_def Let_def case_prod_beta
        bsdDispatchBasicCommand_sent ipc_defs split: if_splits)
next
  case (Call_bsdOpen a b)
  with assms(1) show ?thesis
    by (auto simp: as_int_def bsdOpen_def Let_def case_prod_beta
        bsdDispatchBasicCommand_sent ipc_defs split: if_splits)
qed (use assms(1) in \<open>auto simp: as_int_def Let_def case_prod_beta bsdDispatchBasicCommand_sent
      bsdNameGetterCommand_sent ipc_defs
      bsdSocket_def bsdSocketExempt_def bsdSocketCreationCommand_def bsdSelect_def bsdPoll_def
      bsdRecv_def bsdSend_def bsdSendTo_def bsdAccept_def bsdBind_def
      bsdConnect_def bsdGetPeerName_def bsdGetSockName_def
      bsdGetSockOpt_def bsdListen_def bsdSetSockOpt_def bsdShutdown_def
      bsdShutdownAllSockets_def bsdWrite_def bsdRead_def bsdClose_def bsdDuplicateSocket_def\<close>)

end
